theory Spec2Isabelle
  imports Complex_Main "HOL-Library.Word"
begin

section \<open>The canvas particle engine (src/lib/particles/particle-engine.ts)\<close>

text \<open>
  A shallow embedding of \<^verbatim>\<open>CanvasParticleEngine\<close>. JavaScript numbers are modelled as
  real numbers (no rounding, no NaN, no infinities). The 2D drawing calls write to the
  canvas only and are left out; everything the engine stores is a field of the records
  below. The environment the engine reads is explicit: the sequence of values returned by
  \<^verbatim>\<open>Math.random()\<close>, the clock reading \<^verbatim>\<open>performance.now()\<close>, the frame timestamps and the
  pixel data that \<^verbatim>\<open>drawImage\<close> followed by \<^verbatim>\<open>getImageData\<close> yields for an image at a given
  sample size. Promises are identified by numbers; resolving one appends its number to a
  log, and a call of the busy callback appends its argument to a second log.
\<close>

subsection \<open>Data model (types.ts and the interfaces of particle-engine.ts)\<close>

datatype SlotId = Hero | MenuPhoto | MenuVideo | MenuMusic | MenuBlog

datatype Direction = Top | Bottom

record SlotRect =
  rect_x :: real
  rect_y :: real
  rect_w :: real
  rect_h :: real

record SlotConfig =
  cfg_id :: SlotId
  cfg_imageSrc :: string
  cfg_rect :: SlotRect
  cfg_direction :: Direction

text \<open>
  The colour string \<^verbatim>\<open>rgba(r, g, b, a/255)\<close> of a particle is kept as its four components.
\<close>

record Particle =
  p_x :: real
  p_y :: real
  p_tx :: real
  p_ty :: real
  p_vx :: real
  p_vy :: real
  p_color :: "8 word \<times> 8 word \<times> 8 word \<times> real"
  p_alpha :: real
  p_size :: real

record AmbientParticle =
  a_x :: real
  a_y :: real
  a_vx :: real
  a_vy :: real
  a_baseVx :: real
  a_baseVy :: real
  a_size :: real
  a_alpha :: real

datatype TransitionStatus = Assembling | Disassembling

text \<open>\<open>t_resolve\<close> is the number of the promise that the continuation resolves.\<close>

record TransitionState =
  t_status :: TransitionStatus
  t_startTime :: real
  t_durationMs :: real
  t_resolve :: nat
  t_direction :: Direction

datatype SlotStatus = Hidden | SlotAssembling | Assembled | SlotDisassembling

fun slotStatusOf :: "TransitionStatus \<Rightarrow> SlotStatus" where
  "slotStatusOf Assembling = SlotAssembling"
| "slotStatusOf Disassembling = SlotDisassembling"

text \<open>
  An image element is either still loading or loaded (\<^verbatim>\<open>image.complete\<close>, \<^verbatim>\<open>imageReady\<close>
  fulfilled). \<open>img_data i w h\<close> is the RGBA byte array that \<^verbatim>\<open>getImageData(0, 0, w, h)\<close>
  returns after the image was drawn scaled to \<open>w \<times> h\<close>; the browser makes it \<open>4 * w * h\<close>
  bytes long. Images that fail to load are outside the model.
\<close>

datatype ImageState = Loading | Loaded

record Image =
  img_state :: ImageState
  img_data :: "nat \<Rightarrow> nat \<Rightarrow> 8 word list"

definition complete :: "Image \<Rightarrow> bool" where
  "complete i = (img_state i = Loaded)"

record SlotState =
  s_config :: SlotConfig
  s_visible :: bool
  s_image :: Image
  s_particles :: "Particle list"
  s_status :: SlotStatus
  s_transition :: "TransitionState option"
  s_alpha :: real

record MouseState =
  m_x :: real
  m_y :: real
  m_lastX :: real
  m_lastY :: real
  m_vx :: real
  m_vy :: real
  m_active :: bool
  m_down :: bool

datatype PointerEvents = PointerNone | PointerAuto

text \<open>
  The engine. \<open>slots\<close> is the \<^verbatim>\<open>Map\<close> in insertion order. \<open>canvas\<close> and \<open>context2d\<close> say
  whether the two references are non-null. The last five fields are the environment:
  the busy callback's calls, the resolved promises, the next unused promise number, and
  the \<^verbatim>\<open>Math.random()\<close> sequence with the number of values already drawn.
\<close>

record Engine =
  canvas :: bool
  context2d :: bool
  pointerEvents :: PointerEvents
  width :: real
  height :: real
  dpr :: real
  slots :: "(SlotId \<times> SlotState) list"
  ambientParticles :: "AmbientParticle list"
  lastFrameTime :: real
  interactionEnabled :: bool
  busy :: bool
  mouse :: MouseState
  busyLog :: "bool list"
  resolved :: "nat list"
  nextPromise :: nat
  rnd :: "nat \<Rightarrow> real"
  rndPos :: nat

datatype error = SlotNotRegistered | NoMeasurableRect

text \<open>
  What an \<^verbatim>\<open>async\<close> call has done when it first yields: it threw (the returned promise is
  rejected), it waits for the image to load, or it returned a promise that stays pending
  until the numbered promise is resolved.
\<close>

datatype outcome = Thrown error | AwaitingImage | Pending nat

subsection \<open>Constants\<close>

definition DEFAULT_DURATION_MS :: real where "DEFAULT_DURATION_MS = 1200"
definition SAMPLE_STEP :: nat where "SAMPLE_STEP = 2"
definition MIN_ALPHA_THRESHOLD :: nat where "MIN_ALPHA_THRESHOLD = 24"
definition PARTICLE_SIZE :: real where "PARTICLE_SIZE = 0.92"
definition SPRING :: real where "SPRING = 0.085"
definition FRICTION :: real where "FRICTION = 0.84"
definition INTERACTION_RADIUS :: real where "INTERACTION_RADIUS = 110"
definition INTERACTION_FORCE :: real where "INTERACTION_FORCE = 0.42"
definition DRAG_FORCE :: real where "DRAG_FORCE = 0.72"
definition AMBIENT_MOUSE_RADIUS :: real where "AMBIENT_MOUSE_RADIUS = 180"
definition AMBIENT_MOUSE_FORCE :: real where "AMBIENT_MOUSE_FORCE = 0.0028"
definition AMBIENT_FRICTION :: real where "AMBIENT_FRICTION = 0.985"
definition AMBIENT_RETURN :: real where "AMBIENT_RETURN = 0.008"
definition ASSEMBLE_ALPHA_RATE :: real where "ASSEMBLE_ALPHA_RATE = 0.12"
definition DISASSEMBLE_ALPHA_RATE :: real where "DISASSEMBLE_ALPHA_RATE = 0.1"
definition TRANSITION_SETTLE_DISTANCE :: real where "TRANSITION_SETTLE_DISTANCE = 1.4"
definition TRANSITION_SETTLE_VELOCITY :: real where "TRANSITION_SETTLE_VELOCITY = 0.12"

definition clamp :: "real \<Rightarrow> real \<Rightarrow> real \<Rightarrow> real" where
  "clamp v lo hi = min hi (max lo v)"

text \<open>\<open>randomBetween r k lo hi\<close> uses the \<open>k\<close>-th value of the random sequence.\<close>

definition randomBetween :: "(nat \<Rightarrow> real) \<Rightarrow> nat \<Rightarrow> real \<Rightarrow> real \<Rightarrow> real" where
  "randomBetween r k lo hi = lo + r k * (hi - lo)"

text \<open>\<^verbatim>\<open>Math.round\<close>: the nearest integer, halves rounded up.\<close>

definition mathRound :: "real \<Rightarrow> int" where
  "mathRound v = \<lfloor>v + 1 / 2\<rfloor>"

subsection \<open>The slot registry\<close>

fun getSlot :: "(SlotId \<times> SlotState) list \<Rightarrow> SlotId \<Rightarrow> SlotState option" where
  "getSlot [] i = None"
| "getSlot ((k, s) # rest) i = (if k = i then Some s else getSlot rest i)"

text \<open>Writing through the reference of a slot that is in the map.\<close>

fun putSlot :: "(SlotId \<times> SlotState) list \<Rightarrow> SlotId \<Rightarrow> SlotState \<Rightarrow> (SlotId \<times> SlotState) list" where
  "putSlot [] i s = []"
| "putSlot ((k, s0) # rest) i s = (if k = i then (k, s) # rest else (k, s0) # putSlot rest i s)"

subsection \<open>Sampling: prepareParticles\<close>

definition sampleParticle :: "8 word list \<Rightarrow> SlotRect \<Rightarrow> nat \<Rightarrow> nat \<Rightarrow> nat \<Rightarrow> Particle" where
  "sampleParticle dat rect wd x y =
     (let index = (y * wd + x) * 4;
          alpha = dat ! (index + 3);
          px = rect_x rect + real x + real SAMPLE_STEP * 0.5;
          py = rect_y rect + real y + real SAMPLE_STEP * 0.5
      in \<lparr>p_x = px, p_y = py, p_tx = px, p_ty = py, p_vx = 0, p_vy = 0,
          p_color = (dat ! index, dat ! (index + 1), dat ! (index + 2), real (unat alpha) / 255),
          p_alpha = real (unat alpha) / 255, p_size = PARTICLE_SIZE\<rparr>)"

text \<open>The inner loop over \<open>x\<close> and the outer loop over \<open>y\<close>; \<open>acc\<close> is the array pushed to.\<close>

function sampleRow :: "8 word list \<Rightarrow> SlotRect \<Rightarrow> nat \<Rightarrow> nat \<Rightarrow> nat \<Rightarrow> Particle list \<Rightarrow> Particle list" where
  "sampleRow dat rect wd y x acc =
     (if x < wd then
        (if unat (dat ! ((y * wd + x) * 4 + 3)) < MIN_ALPHA_THRESHOLD
         then sampleRow dat rect wd y (x + SAMPLE_STEP) acc
         else sampleRow dat rect wd y (x + SAMPLE_STEP) (acc @ [sampleParticle dat rect wd x y]))
      else acc)"
  by pat_completeness auto
termination
  by (relation "measure (\<lambda>(dat, rect, wd, y, x, acc). wd - x)") (auto simp: SAMPLE_STEP_def)

function sampleRows :: "8 word list \<Rightarrow> SlotRect \<Rightarrow> nat \<Rightarrow> nat \<Rightarrow> nat \<Rightarrow> Particle list \<Rightarrow> Particle list" where
  "sampleRows dat rect wd ht y acc =
     (if y < ht then sampleRows dat rect wd ht (y + SAMPLE_STEP) (sampleRow dat rect wd y 0 acc)
      else acc)"
  by pat_completeness auto
termination
  by (relation "measure (\<lambda>(dat, rect, wd, ht, y, acc). ht - y)") (auto simp: SAMPLE_STEP_def)

declare sampleRow.simps [simp del] sampleRows.simps [simp del]

text \<open>
  The sampling canvas is taken to provide a 2D context; without one the source returns
  before sampling, as it does for a rect without area or an image that is not complete.
\<close>

definition prepareParticles :: "SlotState \<Rightarrow> SlotState" where
  "prepareParticles slot =
     (let rect = cfg_rect (s_config slot) in
      if rect_w rect \<le> 0 \<or> rect_h rect \<le> 0 \<or> \<not> complete (s_image slot) then slot
      else
        (let sampleWidth = nat (max 1 (mathRound (rect_w rect)));
             sampleHeight = nat (max 1 (mathRound (rect_h rect)));
             dat = img_data (s_image slot) sampleWidth sampleHeight
         in slot\<lparr>s_particles := sampleRows dat rect sampleWidth sampleHeight 0 []\<rparr>))"

subsection \<open>Interaction flag and busy flag\<close>

definition setInteractionEnabled :: "Engine \<Rightarrow> bool \<Rightarrow> Engine" where
  "setInteractionEnabled e enabled =
     e\<lparr>interactionEnabled := enabled,
       pointerEvents := (if canvas e then (if enabled then PointerNone else PointerAuto)
                         else pointerEvents e)\<rparr>"

text \<open>The loop of \<^verbatim>\<open>updateBusyState\<close>, which leaves at the first slot with a transition.\<close>

fun hasOpenTransition :: "(SlotId \<times> SlotState) list \<Rightarrow> bool" where
  "hasOpenTransition [] = False"
| "hasOpenTransition ((k, s) # rest) =
     (if s_transition s \<noteq> None then True else hasOpenTransition rest)"

text \<open>
  The test that ends both \<^verbatim>\<open>updateBusyState\<close> and the slot loop of \<^verbatim>\<open>render\<close>: store the
  flag and call the busy callback when the value differs from the stored one.
\<close>

definition setBusy :: "Engine \<Rightarrow> bool \<Rightarrow> Engine" where
  "setBusy e hasTransition =
     (if busy e \<noteq> hasTransition
      then e\<lparr>busy := hasTransition, busyLog := busyLog e @ [hasTransition]\<rparr>
      else e)"

definition updateBusyState :: "Engine \<Rightarrow> Engine" where
  "updateBusyState e = setBusy e (hasOpenTransition (slots e))"

subsection \<open>Registering and measuring slots\<close>

text \<open>
  \<open>registerSlot e config dat\<close>: \<open>dat\<close> is the pixel data behind \<^verbatim>\<open>config.imageSrc\<close>, used
  when a new image element is created.
\<close>

definition registerSlot :: "Engine \<Rightarrow> SlotConfig \<Rightarrow> (nat \<Rightarrow> nat \<Rightarrow> 8 word list) \<Rightarrow> Engine" where
  "registerSlot e config dat =
     (case getSlot (slots e) (cfg_id config) of
        Some existing \<Rightarrow>
          e\<lparr>slots := putSlot (slots e) (cfg_id config)
                        (prepareParticles (existing\<lparr>s_config := config\<rparr>))\<rparr>
      | None \<Rightarrow>
          e\<lparr>slots := slots e @
             [(cfg_id config,
               \<lparr>s_config = config, s_visible = False,
                s_image = \<lparr>img_state = Loading, img_data = dat\<rparr>,
                s_particles = [], s_status = Hidden, s_transition = None, s_alpha = 0\<rparr>)]\<rparr>)"

text \<open>
  The image of slot \<open>i\<close> finishes loading: \<^verbatim>\<open>imageReady\<close> is fulfilled and the callback
  registered by \<^verbatim>\<open>registerSlot\<close> samples the slot.
\<close>

definition imageLoaded :: "Engine \<Rightarrow> SlotId \<Rightarrow> Engine" where
  "imageLoaded e i =
     (case getSlot (slots e) i of
        None \<Rightarrow> e
      | Some slot \<Rightarrow>
          e\<lparr>slots := putSlot (slots e) i
             (prepareParticles (slot\<lparr>s_image := (s_image slot)\<lparr>img_state := Loaded\<rparr>\<rparr>))\<rparr>)"

definition snapParticle :: "Particle \<Rightarrow> Particle" where
  "snapParticle p = p\<lparr>p_x := p_tx p, p_y := p_ty p, p_vx := 0, p_vy := 0\<rparr>"

text \<open>The loop that sets every particle onto its target and stops it.\<close>

primrec snapToTarget :: "Particle list \<Rightarrow> Particle list" where
  "snapToTarget [] = []"
| "snapToTarget (p # ps) = snapParticle p # snapToTarget ps"

definition updateSlotRect :: "Engine \<Rightarrow> SlotId \<Rightarrow> SlotRect \<Rightarrow> Engine" where
  "updateSlotRect e i rect =
     (case getSlot (slots e) i of
        None \<Rightarrow> e
      | Some slot \<Rightarrow>
          (let slot1 = slot\<lparr>s_config := (s_config slot)\<lparr>cfg_rect := rect\<rparr>\<rparr> in
           if complete (s_image slot1) then
             (let slot2 = prepareParticles slot1 in
              if s_status slot2 = Assembled
              then e\<lparr>slots := putSlot (slots e) i
                         (slot2\<lparr>s_particles := snapToTarget (s_particles slot2)\<rparr>)\<rparr>
              else e\<lparr>slots := putSlot (slots e) i slot2\<rparr>)
           else e\<lparr>slots := putSlot (slots e) i slot1\<rparr>))"

definition setSlotVisible :: "Engine \<Rightarrow> SlotId \<Rightarrow> bool \<Rightarrow> Engine" where
  "setSlotVisible e i visible =
     (case getSlot (slots e) i of
        None \<Rightarrow> e
      | Some slot \<Rightarrow>
          (if \<not> visible
           then e\<lparr>slots := putSlot (slots e) i
                  (slot\<lparr>s_visible := visible, s_status := Hidden, s_alpha := 0,
                        s_transition := None\<rparr>)\<rparr>
           else e\<lparr>slots := putSlot (slots e) i (slot\<lparr>s_visible := visible\<rparr>)\<rparr>))"

subsection \<open>Opening a transition: runTransition, assemble, disassemble\<close>

definition getOffscreenY :: "Engine \<Rightarrow> nat \<Rightarrow> Direction \<Rightarrow> SlotRect \<Rightarrow> real" where
  "getOffscreenY e k direction rect =
     (if direction = Bottom
      then height e + randomBetween (rnd e) k 16 (max 48 (rect_h rect * 0.6))
      else - randomBetween (rnd e) k 40 (max 120 (rect_h rect * 1.25)))"

definition seedParticle :: "(nat \<Rightarrow> real) \<Rightarrow> nat \<Rightarrow> TransitionStatus \<Rightarrow> SlotRect \<Rightarrow> real \<Rightarrow> Particle \<Rightarrow> Particle" where
  "seedParticle r k status rect startY p =
     (if status = Assembling
      then p\<lparr>p_x := randomBetween r k (rect_x rect) (rect_x rect + rect_w rect),
             p_y := startY - randomBetween r (k + 1) 0 (rect_h rect * 0.25),
             p_vx := randomBetween r (k + 2) (- 0.35) 0.35,
             p_vy := randomBetween r (k + 3) 1.2 3.6\<rparr>
      else p\<lparr>p_tx := randomBetween r k (rect_x rect) (rect_x rect + rect_w rect),
             p_ty := startY - randomBetween r (k + 1) 0 (rect_h rect * 0.35),
             p_vx := p_vx p + randomBetween r (k + 2) (- 0.4) 0.4,
             p_vy := p_vy p + randomBetween r (k + 3) (- 1.2) 0.4\<rparr>)"

text \<open>
  The seeding loop; \<open>k\<close> counts the random values drawn so far, four for each particle.
\<close>

fun seedParticles :: "(nat \<Rightarrow> real) \<Rightarrow> nat \<Rightarrow> TransitionStatus \<Rightarrow> SlotRect \<Rightarrow> real \<Rightarrow> Particle list \<Rightarrow> Particle list" where
  "seedParticles r k status rect startY [] = []"
| "seedParticles r k status rect startY (p # ps) =
     seedParticle r k status rect startY p # seedParticles r (k + 4) status rect startY ps"

text \<open>
  \<open>runTransition e i slot status direction durationMs now\<close>: \<open>slot\<close> is the slot stored under
  \<open>i\<close>, \<open>now\<close> the value of \<^verbatim>\<open>performance.now()\<close>. The result is the engine afterwards and
  what the call did.
\<close>

definition runTransition :: "Engine \<Rightarrow> SlotId \<Rightarrow> SlotState \<Rightarrow> TransitionStatus \<Rightarrow> Direction \<Rightarrow> real \<Rightarrow> real \<Rightarrow> Engine \<times> outcome" where
  "runTransition e i slot status direction durationMs now =
     (let rect = cfg_rect (s_config slot) in
      if rect_w rect \<le> 0 \<or> rect_h rect \<le> 0 then (e, Thrown NoMeasurableRect)
      else
        (let e1 = (case s_transition slot of
                     Some stale \<Rightarrow> e\<lparr>resolved := resolved e @ [t_resolve stale]\<rparr>
                   | None \<Rightarrow> e);
             e2 = setInteractionEnabled e1 False;
             startY = getOffscreenY e2 (rndPos e2) direction rect;
             ps = seedParticles (rnd e2) (rndPos e2 + 1) status rect startY (s_particles slot);
             pid = nextPromise e2;
             slot' = slot\<lparr>s_visible := True, s_status := slotStatusOf status,
                          s_particles := ps,
                          s_alpha := (if status = Assembling then 0 else 1),
                          s_transition := Some \<lparr>t_status = status, t_startTime = now,
                             t_durationMs = durationMs, t_resolve = pid,
                             t_direction = direction\<rparr>\<rparr>;
             e3 = e2\<lparr>slots := putSlot (slots e2) i slot', nextPromise := pid + 1,
                      rndPos := rndPos e2 + 1 + 4 * length (s_particles slot)\<rparr>
         in (updateBusyState e3, Pending pid)))"

record TransitionOptions =
  opt_direction :: "Direction option"
  opt_durationMs :: "real option"

text \<open>
  \<^verbatim>\<open>assemble\<close> and \<^verbatim>\<open>disassemble\<close> look the slot up, wait for \<^verbatim>\<open>imageReady\<close> and then run
  the transition; a call made while the image is loading has done nothing yet.
\<close>

definition assemble :: "Engine \<Rightarrow> SlotId \<Rightarrow> TransitionOptions \<Rightarrow> real \<Rightarrow> Engine \<times> outcome" where
  "assemble e i opts now =
     (case getSlot (slots e) i of
        None \<Rightarrow> (e, Thrown SlotNotRegistered)
      | Some slot \<Rightarrow>
          if \<not> complete (s_image slot) then (e, AwaitingImage)
          else runTransition e i slot Assembling
                 (case opt_direction opts of None \<Rightarrow> cfg_direction (s_config slot) | Some d \<Rightarrow> d)
                 (case opt_durationMs opts of None \<Rightarrow> DEFAULT_DURATION_MS | Some d \<Rightarrow> d)
                 now)"

definition disassemble :: "Engine \<Rightarrow> SlotId \<Rightarrow> TransitionOptions \<Rightarrow> real \<Rightarrow> Engine \<times> outcome" where
  "disassemble e i opts now =
     (case getSlot (slots e) i of
        None \<Rightarrow> (e, Thrown SlotNotRegistered)
      | Some slot \<Rightarrow>
          if \<not> complete (s_image slot) then (e, AwaitingImage)
          else runTransition e i slot Disassembling
                 (case opt_direction opts of None \<Rightarrow> cfg_direction (s_config slot) | Some d \<Rightarrow> d)
                 (case opt_durationMs opts of None \<Rightarrow> DEFAULT_DURATION_MS | Some d \<Rightarrow> d)
                 now)"

subsection \<open>The frame: updateTransition, the two integrators, render\<close>

text \<open>The settle loop of \<^verbatim>\<open>updateTransition\<close>, which leaves at the first unsettled particle.\<close>

fun settledLoop :: "Particle list \<Rightarrow> bool" where
  "settledLoop [] = True"
| "settledLoop (p # ps) =
     (if \<bar>p_tx p - p_x p\<bar> > TRANSITION_SETTLE_DISTANCE \<or>
         \<bar>p_ty p - p_y p\<bar> > TRANSITION_SETTLE_DISTANCE \<or>
         \<bar>p_vx p\<bar> > TRANSITION_SETTLE_VELOCITY \<or>
         \<bar>p_vy p\<bar> > TRANSITION_SETTLE_VELOCITY
      then False else settledLoop ps)"

text \<open>
  \<open>updateTransition slot timestamp\<close> gives the slot afterwards and the promise it resolved,
  if it called \<^verbatim>\<open>resolve\<close>.
\<close>

definition updateTransition :: "SlotState \<Rightarrow> real \<Rightarrow> SlotState \<times> nat option" where
  "updateTransition slot timestamp =
     (case s_transition slot of
        None \<Rightarrow> (slot, None)
      | Some transition \<Rightarrow>
          (let slot1 = (if t_status transition = Assembling
                        then slot\<lparr>s_alpha := s_alpha slot + (1 - s_alpha slot) * ASSEMBLE_ALPHA_RATE\<rparr>
                        else slot\<lparr>s_alpha := s_alpha slot + (0 - s_alpha slot) * DISASSEMBLE_ALPHA_RATE\<rparr>);
               elapsed = timestamp - t_startTime transition
           in if elapsed < t_durationMs transition then (slot1, None)
              else if \<not> settledLoop (s_particles slot1) then (slot1, None)
              else if t_status transition = Assembling
              then (slot1\<lparr>s_transition := None, s_status := Assembled, s_alpha := 1,
                          s_particles := snapToTarget (s_particles slot1)\<rparr>,
                    Some (t_resolve transition))
              else (slot1\<lparr>s_transition := None, s_status := Hidden, s_visible := False,
                          s_alpha := 0\<rparr>,
                    Some (t_resolve transition))))"

definition updateImageParticle :: "Engine \<Rightarrow> real \<Rightarrow> Particle \<Rightarrow> Particle" where
  "updateImageParticle e delta p =
     (let activeMouse = (m_active (mouse e) \<and> interactionEnabled e);
          radiusSq = INTERACTION_RADIUS * INTERACTION_RADIUS;
          interactionForce = (if m_down (mouse e) then DRAG_FORCE else INTERACTION_FORCE);
          springX = (p_tx p - p_x p) * SPRING;
          springY = (p_ty p - p_y p) * SPRING;
          vx1 = p_vx p + springX * delta;
          vy1 = p_vy p + springY * delta;
          dx = p_x p - m_x (mouse e);
          dy = p_y p - m_y (mouse e);
          distanceSq = dx * dx + dy * dy;
          pushed = (activeMouse \<and> distanceSq < radiusSq \<and> distanceSq > 0.0001);
          distance = sqrt distanceSq;
          influence = 1 - distance / INTERACTION_RADIUS;
          force = influence * interactionForce;
          nx = dx / distance;
          ny = dy / distance;
          vx2 = (if pushed then vx1 + (nx * force * delta + m_vx (mouse e) * 0.012 * influence) else vx1);
          vy2 = (if pushed then vy1 + (ny * force * delta + m_vy (mouse e) * 0.012 * influence) else vy1);
          vx3 = vx2 * FRICTION;
          vy3 = vy2 * FRICTION
      in p\<lparr>p_vx := vx3, p_vy := vy3, p_x := p_x p + vx3 * delta, p_y := p_y p + vy3 * delta\<rparr>)"

definition updateImageParticles :: "Engine \<Rightarrow> SlotState \<Rightarrow> real \<Rightarrow> SlotState" where
  "updateImageParticles e slot delta =
     slot\<lparr>s_particles := map (updateImageParticle e delta) (s_particles slot)\<rparr>"

definition updateAmbientParticle :: "Engine \<Rightarrow> real \<Rightarrow> AmbientParticle \<Rightarrow> AmbientParticle" where
  "updateAmbientParticle e delta p =
     (let activeMouse = m_active (mouse e);
          radiusSq = AMBIENT_MOUSE_RADIUS * AMBIENT_MOUSE_RADIUS;
          vx1 = a_vx p + (a_baseVx p - a_vx p) * AMBIENT_RETURN * delta;
          vy1 = a_vy p + (a_baseVy p - a_vy p) * AMBIENT_RETURN * delta;
          dx = a_x p - m_x (mouse e);
          dy = a_y p - m_y (mouse e);
          distanceSq = dx * dx + dy * dy;
          pushed = (activeMouse \<and> distanceSq < radiusSq \<and> distanceSq > 0.0001);
          distance = sqrt distanceSq;
          influence = 1 - distance / AMBIENT_MOUSE_RADIUS;
          vx2 = (if pushed then vx1 + dx * AMBIENT_MOUSE_FORCE * influence * delta else vx1);
          vy2 = (if pushed then vy1 + dy * AMBIENT_MOUSE_FORCE * influence * delta else vy1);
          vx3 = vx2 * AMBIENT_FRICTION;
          vy3 = vy2 * AMBIENT_FRICTION;
          x1 = a_x p + vx3 * delta;
          y1 = a_y p + vy3 * delta;
          x2 = (if x1 < - 8 then width e + 8 else if x1 > width e + 8 then - 8 else x1);
          y2 = (if y1 < - 8 then height e + 8 else if y1 > height e + 8 then - 8 else y1)
      in p\<lparr>a_vx := vx3, a_vy := vy3, a_x := x2, a_y := y2\<rparr>)"

definition updateAmbientParticles :: "Engine \<Rightarrow> real \<Rightarrow> Engine" where
  "updateAmbientParticles e delta =
     e\<lparr>ambientParticles := map (updateAmbientParticle e delta) (ambientParticles e)\<rparr>"

text \<open>
  The loop of \<^verbatim>\<open>render\<close> over the slots: the slots afterwards, the flag \<open>hasTransition\<close>
  and the promises resolved, in order.
\<close>

fun renderSlots :: "Engine \<Rightarrow> real \<Rightarrow> real \<Rightarrow> (SlotId \<times> SlotState) list \<Rightarrow> (SlotId \<times> SlotState) list \<times> bool \<times> nat list" where
  "renderSlots e timestamp delta [] = ([], False, [])"
| "renderSlots e timestamp delta ((k, slot) # rest) =
     (let (rest', h, res) = renderSlots e timestamp delta rest in
      if \<not> s_visible slot \<or> length (s_particles slot) = 0 then ((k, slot) # rest', h, res)
      else if s_transition slot \<noteq> None
      then (let (slot1, r) = updateTransition slot timestamp
            in ((k, updateImageParticles e slot1 delta) # rest', True,
                (case r of None \<Rightarrow> [] | Some pid \<Rightarrow> [pid]) @ res))
      else ((k, updateImageParticles e slot delta) # rest', h, res))"

definition render :: "Engine \<Rightarrow> real \<Rightarrow> Engine" where
  "render e timestamp =
     (if \<not> context2d e then e
      else
        (let deltaMs = (if lastFrameTime e = 0 then 16.67 else timestamp - lastFrameTime e);
             e1 = e\<lparr>lastFrameTime := timestamp\<rparr>;
             delta = clamp (deltaMs / 16.67) 0.6 1.6;
             e2 = updateAmbientParticles e1 delta;
             (slots', hasTransition, res) = renderSlots e2 timestamp delta (slots e2);
             e3 = setBusy (e2\<lparr>slots := slots', resolved := resolved e2 @ res\<rparr>) hasTransition
         in if \<not> hasTransition then setInteractionEnabled e3 True else e3))"

text \<open>
  A run of frames, one for each timestamp: every call of \<^verbatim>\<open>render\<close> requests the next
  animation frame before it does anything else.
\<close>

fun frames :: "Engine \<Rightarrow> real list \<Rightarrow> Engine" where
  "frames e [] = e"
| "frames e (t # ts) = frames (render e t) ts"

subsection \<open>Concrete inputs\<close>

definition ex_image :: Image where
  "ex_image = \<lparr>img_state = Loaded, img_data = (\<lambda>w h. replicate (4 * w * h) 255)\<rparr>"

definition ex_config :: SlotConfig where
  "ex_config = \<lparr>cfg_id = Hero, cfg_imageSrc = ''/images/hero.png'',
     cfg_rect = \<lparr>rect_x = 0, rect_y = 0, rect_w = 4, rect_h = 2\<rparr>, cfg_direction = Top\<rparr>"

definition ex_particle :: Particle where
  "ex_particle = \<lparr>p_x = 5, p_y = 3, p_tx = 5, p_ty = 3, p_vx = 0, p_vy = 0,
     p_color = (255, 255, 255, 1), p_alpha = 1, p_size = PARTICLE_SIZE\<rparr>"

definition ex_transition :: "TransitionStatus \<Rightarrow> TransitionState" where
  "ex_transition st = \<lparr>t_status = st, t_startTime = 0, t_durationMs = 1200, t_resolve = 0,
     t_direction = Top\<rparr>"

definition ex_slot :: "Particle list \<Rightarrow> SlotStatus \<Rightarrow> TransitionState option \<Rightarrow> SlotState" where
  "ex_slot ps st tr = \<lparr>s_config = ex_config, s_visible = True, s_image = ex_image,
     s_particles = ps, s_status = st, s_transition = tr, s_alpha = 1 / 2\<rparr>"

definition ex_mouse :: MouseState where
  "ex_mouse = \<lparr>m_x = 0, m_y = 0, m_lastX = 0, m_lastY = 0, m_vx = 0, m_vy = 0,
     m_active = False, m_down = False\<rparr>"

definition ex_engine :: "SlotState \<Rightarrow> Engine" where
  "ex_engine slot = \<lparr>canvas = True, context2d = True, pointerEvents = PointerNone,
     width = 800, height = 600, dpr = 1, slots = [(Hero, slot)], ambientParticles = [],
     lastFrameTime = 0, interactionEnabled = True, busy = False, mouse = ex_mouse,
     busyLog = [], resolved = [], nextPromise = 1, rnd = (\<lambda>k. 1 / 2), rndPos = 0\<rparr>"

definition edge_particle :: Particle where
  "edge_particle = ex_particle\<lparr>p_vx := 0.12\<rparr>"

definition zero_rect :: SlotRect where
  "zero_rect = \<lparr>rect_x = 0, rect_y = 0, rect_w = 0, rect_h = 0\<rparr>"

definition unmeasured_slot :: SlotState where
  "unmeasured_slot =
     (ex_slot [ex_particle] SlotAssembling (Some (ex_transition Assembling)))
       \<lparr>s_config := ex_config\<lparr>cfg_rect := zero_rect\<rparr>\<rparr>"

definition no_opts :: TransitionOptions where
  "no_opts = \<lparr>opt_direction = None, opt_durationMs = None\<rparr>"

definition assembled_slot :: SlotState where
  "assembled_slot = (ex_slot [ex_particle] Assembled None)\<lparr>s_alpha := 1\<rparr>"

definition assembling_slot :: SlotState where
  "assembling_slot = ex_slot [ex_particle] SlotAssembling (Some (ex_transition Assembling))"

definition busy_engine :: Engine where
  "busy_engine = (ex_engine assembling_slot)\<lparr>busy := True, interactionEnabled := False\<rparr>"

text \<open>A one-pixel image whose alpha channel is exactly the threshold.\<close>

definition faint_image :: Image where
  "faint_image = \<lparr>img_state = Loaded, img_data = (\<lambda>w h. [10, 20, 30, 24])\<rparr>"

definition faint_slot :: SlotState where
  "faint_slot = \<lparr>s_config = ex_config\<lparr>cfg_rect := \<lparr>rect_x = 100, rect_y = 50, rect_w = 1, rect_h = 1\<rparr>\<rparr>,
     s_visible = False, s_image = faint_image, s_particles = [], s_status = Hidden,
     s_transition = None, s_alpha = 0\<rparr>"

definition unsampled_slot :: SlotState where
  "unsampled_slot = ex_slot [] Hidden None"

definition empty_slot :: SlotState where
  "empty_slot = ex_slot [] SlotAssembling (Some (ex_transition Assembling))"

definition waiting_engine :: Engine where
  "waiting_engine = (ex_engine empty_slot)\<lparr>busy := True, interactionEnabled := False\<rparr>"

definition ex_ambient :: AmbientParticle where
  "ex_ambient = \<lparr>a_x = 3, a_y = 4, a_vx = 0, a_vy = 0, a_baseVx = 0, a_baseVy = 0,
     a_size = 1, a_alpha = 0.2\<rparr>"

definition locked_engine :: Engine where
  "locked_engine = (ex_engine assembled_slot)\<lparr>interactionEnabled := False,
     ambientParticles := [ex_ambient]\<rparr>"

definition near_mouse :: MouseState where
  "near_mouse = ex_mouse\<lparr>m_active := True\<rparr>"

definition displaced_slot :: SlotState where
  "displaced_slot = ex_slot [ex_particle\<lparr>p_x := 9, p_vx := 1\<rparr>] Assembled None"



subsection \<open>The sampling contract, in the words of the specification\<close>

text \<open>The coordinates of a pixel grid of extent \<open>n\<close> visited at a stride of 2 pixels.\<close>

definition gridCoords :: "nat \<Rightarrow> nat list" where
  "gridCoords n = filter even [0..<n]"

text \<open>
  The sample of the pixel at \<open>(x, y)\<close>: placed at the rect origin plus the pixel coordinate
  plus half the stride, coloured as the pixel, weighted by the pixel's alpha over 255,
  at rest on its own position.
\<close>

definition spec_sample :: "8 word list \<Rightarrow> SlotRect \<Rightarrow> nat \<Rightarrow> nat \<Rightarrow> nat \<Rightarrow> Particle" where
  "spec_sample dat rect wd x y =
     \<lparr>p_x = rect_x rect + real x + 1, p_y = rect_y rect + real y + 1,
      p_tx = rect_x rect + real x + 1, p_ty = rect_y rect + real y + 1,
      p_vx = 0, p_vy = 0,
      p_color = (dat ! (4 * (y * wd + x)), dat ! (4 * (y * wd + x) + 1),
                 dat ! (4 * (y * wd + x) + 2), real (unat (dat ! (4 * (y * wd + x) + 3))) / 255),
      p_alpha = real (unat (dat ! (4 * (y * wd + x) + 3))) / 255,
      p_size = 0.92\<rparr>"

text \<open>
  The point list: rows from top to bottom, each from left to right, keeping the pixels
  whose alpha channel is at least \<open>minAlpha\<close>.
\<close>

definition spec_samples :: "nat \<Rightarrow> 8 word list \<Rightarrow> SlotRect \<Rightarrow> nat \<Rightarrow> nat \<Rightarrow> Particle list" where
  "spec_samples minAlpha dat rect wd ht =
     concat (map (\<lambda>y. map (\<lambda>x. spec_sample dat rect wd x y)
                        (filter (\<lambda>x. minAlpha \<le> unat (dat ! (4 * (y * wd + x) + 3))) (gridCoords wd)))
                 (gridCoords ht))"

section \<open>Properties\<close>

subsection \<open>Auxiliary facts\<close>

lemmas ex_defs = ex_image_def ex_config_def ex_particle_def ex_transition_def ex_slot_def
  ex_mouse_def ex_engine_def

lemmas const_defs = TRANSITION_SETTLE_DISTANCE_def TRANSITION_SETTLE_VELOCITY_def
  ASSEMBLE_ALPHA_RATE_def DISASSEMBLE_ALPHA_RATE_def DEFAULT_DURATION_MS_def PARTICLE_SIZE_def

lemma settledLoop_iff:
  "settledLoop ps = (\<forall>p\<in>set ps.
      \<bar>p_tx p - p_x p\<bar> \<le> TRANSITION_SETTLE_DISTANCE \<and>
      \<bar>p_ty p - p_y p\<bar> \<le> TRANSITION_SETTLE_DISTANCE \<and>
      \<bar>p_vx p\<bar> \<le> TRANSITION_SETTLE_VELOCITY \<and>
      \<bar>p_vy p\<bar> \<le> TRANSITION_SETTLE_VELOCITY)"
  by (induction ps) (auto simp: not_less)

lemma snapToTarget_map: "snapToTarget ps = map snapParticle ps"
  by (induction ps) simp_all

lemma snapToTarget_on_target:
  "\<forall>p\<in>set (snapToTarget ps). p_x p = p_tx p \<and> p_y p = p_ty p \<and> p_vx p = 0 \<and> p_vy p = 0"
  by (induction ps) (simp_all add: snapParticle_def)

lemma snapToTarget_targets:
  "map p_tx (snapToTarget ps) = map p_tx ps \<and> map p_ty (snapToTarget ps) = map p_ty ps"
  by (induction ps) (simp_all add: snapParticle_def)

lemma getSlot_putSlot:
  "getSlot xs i \<noteq> None \<Longrightarrow> getSlot (putSlot xs i s) i = Some s"
  by (induction xs) (auto split: if_splits)

lemma putSlot_same:
  "getSlot xs i = Some s \<Longrightarrow> putSlot xs i s = xs"
  by (induction xs) (auto split: if_splits)

lemma putSlot_putSlot:
  "putSlot (putSlot xs i a) i b = putSlot xs i b"
  by (induction xs) auto

lemma hasOpenTransition_iff:
  "hasOpenTransition xs = (\<exists>ks\<in>set xs. s_transition (snd ks) \<noteq> None)"
  by (induction xs) auto

lemma hasOpenTransition_putSlot:
  "getSlot xs i \<noteq> None \<Longrightarrow> s_transition s \<noteq> None \<Longrightarrow> hasOpenTransition (putSlot xs i s)"
  by (induction xs) (auto split: if_splits)

lemma seedParticles_length:
  "length (seedParticles r k st rect y ps) = length ps"
  by (induction ps arbitrary: k) simp_all

lemma seedParticles_assembling_targets:
  "map p_tx (seedParticles r k Assembling rect y ps) = map p_tx ps \<and>
   map p_ty (seedParticles r k Assembling rect y ps) = map p_ty ps"
  by (induction ps arbitrary: k) (simp_all add: seedParticle_def)

text \<open>What a call of \<^verbatim>\<open>runTransition\<close> that passes the rect check leaves behind.\<close>

lemma runTransition_opened:
  assumes "getSlot (slots e) i = Some slot"
    and "0 < rect_w (cfg_rect (s_config slot))" and "0 < rect_h (cfg_rect (s_config slot))"
  shows "snd (runTransition e i slot st d dur now) = Pending (nextPromise e)"
    and "resolved (fst (runTransition e i slot st d dur now)) =
           (case s_transition slot of None \<Rightarrow> resolved e
            | Some stale \<Rightarrow> resolved e @ [t_resolve stale])"
    and "getSlot (slots (fst (runTransition e i slot st d dur now))) i =
           Some (slot\<lparr>s_visible := True, s_status := slotStatusOf st,
                  s_particles := seedParticles (rnd e) (rndPos e + 1) st (cfg_rect (s_config slot))
                     (getOffscreenY e (rndPos e) d (cfg_rect (s_config slot))) (s_particles slot),
                  s_alpha := (if st = Assembling then 0 else 1),
                  s_transition := Some \<lparr>t_status = st, t_startTime = now, t_durationMs = dur,
                     t_resolve = nextPromise e, t_direction = d\<rparr>\<rparr>)"
    and "busy (fst (runTransition e i slot st d dur now))"
    and "busyLog (fst (runTransition e i slot st d dur now)) =
           busyLog e @ (if busy e then [] else [True])"
    and "hasOpenTransition (slots (fst (runTransition e i slot st d dur now)))"
    and "\<not> interactionEnabled (fst (runTransition e i slot st d dur now))"
proof -
  have reg: "getSlot (slots e) i \<noteq> None"
    using assms(1) by simp
  have pos: "\<not> (rect_w (cfg_rect (s_config slot)) \<le> 0 \<or> rect_h (cfg_rect (s_config slot)) \<le> 0)"
    using assms(2,3) by simp
  note defs = runTransition_def Let_def setInteractionEnabled_def updateBusyState_def
    setBusy_def getOffscreenY_def
  show "snd (runTransition e i slot st d dur now) = Pending (nextPromise e)"
    using pos by (simp add: defs split: option.splits)
  show "resolved (fst (runTransition e i slot st d dur now)) =
           (case s_transition slot of None \<Rightarrow> resolved e
            | Some stale \<Rightarrow> resolved e @ [t_resolve stale])"
    using pos by (simp add: defs split: option.splits)
  show "getSlot (slots (fst (runTransition e i slot st d dur now))) i =
           Some (slot\<lparr>s_visible := True, s_status := slotStatusOf st,
                  s_particles := seedParticles (rnd e) (rndPos e + 1) st (cfg_rect (s_config slot))
                     (getOffscreenY e (rndPos e) d (cfg_rect (s_config slot))) (s_particles slot),
                  s_alpha := (if st = Assembling then 0 else 1),
                  s_transition := Some \<lparr>t_status = st, t_startTime = now, t_durationMs = dur,
                     t_resolve = nextPromise e, t_direction = d\<rparr>\<rparr>)"
    using pos reg by (simp add: defs getSlot_putSlot split: option.splits)
  show "busy (fst (runTransition e i slot st d dur now))"
    using pos reg by (simp add: defs hasOpenTransition_putSlot split: option.splits)
  show "busyLog (fst (runTransition e i slot st d dur now)) =
           busyLog e @ (if busy e then [] else [True])"
    using pos reg by (simp add: defs hasOpenTransition_putSlot split: option.splits)
  show "hasOpenTransition (slots (fst (runTransition e i slot st d dur now)))"
    using pos reg by (simp add: defs hasOpenTransition_putSlot split: option.splits)
  show "\<not> interactionEnabled (fst (runTransition e i slot st d dur now))"
    using pos by (simp add: defs split: option.splits)
qed

text \<open>The flag \<open>hasTransition\<close> that the loop of \<^verbatim>\<open>render\<close> computes.\<close>

lemma renderSlots_flag:
  "fst (snd (renderSlots e ts d xs)) =
     (\<exists>ks\<in>set xs. s_visible (snd ks) \<and> s_particles (snd ks) \<noteq> [] \<and> s_transition (snd ks) \<noteq> None)"
  by (induction xs) (auto simp: Let_def split: prod.splits if_splits)

lemma render_busy:
  assumes "context2d e"
  shows "busy (render e ts) =
           (\<exists>ks\<in>set (slots e). s_visible (snd ks) \<and> s_particles (snd ks) \<noteq> [] \<and>
              s_transition (snd ks) \<noteq> None)"
    and "busyLog (render e ts) =
           busyLog e @
           (if busy e = (\<exists>ks\<in>set (slots e). s_visible (snd ks) \<and> s_particles (snd ks) \<noteq> [] \<and>
                           s_transition (snd ks) \<noteq> None)
            then []
            else [\<exists>ks\<in>set (slots e). s_visible (snd ks) \<and> s_particles (snd ks) \<noteq> [] \<and>
                           s_transition (snd ks) \<noteq> None])"
proof -
  let ?e2 = "updateAmbientParticles (e\<lparr>lastFrameTime := ts\<rparr>)
      (clamp ((if lastFrameTime e = 0 then 16.67 else ts - lastFrameTime e) / 16.67) 0.6 1.6)"
  let ?r = "renderSlots ?e2 ts
      (clamp ((if lastFrameTime e = 0 then 16.67 else ts - lastFrameTime e) / 16.67) 0.6 1.6)
      (slots ?e2)"
  have sl: "slots ?e2 = slots e"
    by (simp add: updateAmbientParticles_def)
  have fl: "fst (snd ?r) =
      (\<exists>ks\<in>set (slots e). s_visible (snd ks) \<and> s_particles (snd ks) \<noteq> [] \<and>
          s_transition (snd ks) \<noteq> None)"
    unfolding renderSlots_flag sl ..
  have b: "busy (render e ts) = fst (snd ?r)"
    using assms
    by (simp add: render_def Let_def setBusy_def setInteractionEnabled_def
        updateAmbientParticles_def split: prod.splits)
  have l: "busyLog (render e ts) = busyLog e @ (if busy e = fst (snd ?r) then [] else [fst (snd ?r)])"
    using assms
    by (simp add: render_def Let_def setBusy_def setInteractionEnabled_def
        updateAmbientParticles_def split: prod.splits)
  show "busy (render e ts) =
           (\<exists>ks\<in>set (slots e). s_visible (snd ks) \<and> s_particles (snd ks) \<noteq> [] \<and>
              s_transition (snd ks) \<noteq> None)"
    unfolding b fl ..
  show "busyLog (render e ts) =
           busyLog e @
           (if busy e = (\<exists>ks\<in>set (slots e). s_visible (snd ks) \<and> s_particles (snd ks) \<noteq> [] \<and>
                           s_transition (snd ks) \<noteq> None)
            then []
            else [\<exists>ks\<in>set (slots e). s_visible (snd ks) \<and> s_particles (snd ks) \<noteq> [] \<and>
                           s_transition (snd ks) \<noteq> None])"
    unfolding l fl ..
qed

lemma even_upt_step:
  assumes "x < n" and "even x"
  shows "filter even [x..<n] = x # filter even [x + 2..<n]"
proof (cases "Suc x < n")
  case True
  have "[x..<n] = x # Suc x # [Suc (Suc x)..<n]"
    using assms(1) True by (simp add: upt_conv_Cons)
  then show ?thesis using assms(2) by simp
next
  case False
  with assms(1) have n: "n = Suc x" by simp
  show ?thesis using assms(2) unfolding n by simp
qed

lemma sampleParticle_spec: "sampleParticle dat rect wd x y = spec_sample dat rect wd x y"
  by (simp add: sampleParticle_def spec_sample_def Let_def SAMPLE_STEP_def PARTICLE_SIZE_def
      mult.commute)

lemma sampleRow_eq:
  "even x \<Longrightarrow>
   sampleRow dat rect wd y x acc =
     acc @ map (\<lambda>x. spec_sample dat rect wd x y)
             (filter (\<lambda>x. MIN_ALPHA_THRESHOLD \<le> unat (dat ! (4 * (y * wd + x) + 3)))
                (filter even [x..<wd]))"
proof (induction dat rect wd y x acc rule: sampleRow.induct)
  case (1 dat rect wd y x acc)
  show ?case
  proof (cases "x < wd")
    case False
    then show ?thesis by (subst sampleRow.simps) simp
  next
    case True
    note step = even_upt_step [OF True "1.prems"]
    have ev: "even (x + SAMPLE_STEP)"
      using "1.prems" by (simp add: SAMPLE_STEP_def)
    show ?thesis
    proof (cases "unat (dat ! ((y * wd + x) * 4 + 3)) < MIN_ALPHA_THRESHOLD")
      case skip: True
      from "1.IH"(1) [OF True skip ev] skip True show ?thesis
        by (subst sampleRow.simps) (simp add: step SAMPLE_STEP_def mult.commute)
    next
      case keep: False
      from "1.IH"(2) [OF True keep ev] keep True show ?thesis
        by (subst sampleRow.simps)
          (simp add: step SAMPLE_STEP_def mult.commute sampleParticle_spec)
    qed
  qed
qed

lemma sampleRows_eq:
  "even y \<Longrightarrow>
   sampleRows dat rect wd ht y acc =
     acc @ concat (map (\<lambda>y. map (\<lambda>x. spec_sample dat rect wd x y)
                        (filter (\<lambda>x. MIN_ALPHA_THRESHOLD \<le> unat (dat ! (4 * (y * wd + x) + 3)))
                           (gridCoords wd)))
                 (filter even [y..<ht]))"
proof (induction dat rect wd ht y acc rule: sampleRows.induct)
  case (1 dat rect wd ht y acc)
  show ?case
  proof (cases "y < ht")
    case False
    then show ?thesis by (subst sampleRows.simps) simp
  next
    case True
    have ev: "even (y + SAMPLE_STEP)"
      using "1.prems" by (simp add: SAMPLE_STEP_def)
    from "1.IH" [OF True ev] True show ?thesis
      by (subst sampleRows.simps)
        (simp add: even_upt_step [OF True "1.prems"] SAMPLE_STEP_def sampleRow_eq gridCoords_def)
  qed
qed

lemma prepareParticles_sampled:
  assumes "0 < rect_w (cfg_rect (s_config slot))" and "0 < rect_h (cfg_rect (s_config slot))"
    and "complete (s_image slot)"
  shows "s_particles (prepareParticles slot) =
           spec_samples MIN_ALPHA_THRESHOLD
             (img_data (s_image slot)
                (nat (max 1 (mathRound (rect_w (cfg_rect (s_config slot))))))
                (nat (max 1 (mathRound (rect_h (cfg_rect (s_config slot)))))))
             (cfg_rect (s_config slot))
             (nat (max 1 (mathRound (rect_w (cfg_rect (s_config slot))))))
             (nat (max 1 (mathRound (rect_h (cfg_rect (s_config slot))))))"
  using assms
  by (simp add: prepareParticles_def Let_def sampleRows_eq spec_samples_def gridCoords_def)

lemma spec_samples_on_target:
  "\<forall>p\<in>set (spec_samples m dat rect wd ht).
     p_x p = p_tx p \<and> p_y p = p_ty p \<and> p_vx p = 0 \<and> p_vy p = 0"
  by (auto simp: spec_samples_def spec_sample_def)

lemma snapToTarget_id:
  "\<forall>p\<in>set ps. p_x p = p_tx p \<and> p_y p = p_ty p \<and> p_vx p = 0 \<and> p_vy p = 0 \<Longrightarrow>
   snapToTarget ps = ps"
  by (induction ps) (simp_all add: snapParticle_def)

text \<open>What the integrators read from the engine.\<close>

lemma updateImageParticle_env:
  assumes "mouse e' = mouse e" and "interactionEnabled e' = interactionEnabled e"
  shows "updateImageParticle e' d p = updateImageParticle e d p"
  unfolding updateImageParticle_def assms ..

lemma updateImageParticle_no_interaction:
  "\<not> interactionEnabled e \<Longrightarrow> \<not> interactionEnabled e' \<Longrightarrow>
   updateImageParticle e' d p = updateImageParticle e d p"
  by (simp add: updateImageParticle_def)

lemma renderSlots_cong:
  assumes "\<And>p. updateImageParticle e' d p = updateImageParticle e d p"
  shows "renderSlots e' ts d xs = renderSlots e ts d xs"
proof -
  have u: "updateImageParticles e' slot d = updateImageParticles e slot d" for slot
    unfolding updateImageParticles_def using assms by simp
  show ?thesis
  proof (induction xs)
    case Nil
    show ?case by simp
  next
    case (Cons a xs)
    then show ?case by (cases a) (auto simp: u Let_def split: prod.splits)
  qed
qed

lemma updateAmbientParticle_env:
  assumes "mouse e' = mouse e" and "width e' = width e" and "height e' = height e"
  shows "updateAmbientParticle e' d p = updateAmbientParticle e d p"
  unfolding updateAmbientParticle_def assms ..

text \<open>A frame, field by field.\<close>

lemma render_body:
  "(case renderSlots (updateAmbientParticles (e\<lparr>lastFrameTime := ts\<rparr>) d) ts d
           (slots (updateAmbientParticles (e\<lparr>lastFrameTime := ts\<rparr>) d)) of
      (slots', hasTransition, res) \<Rightarrow>
        if \<not> hasTransition
        then setInteractionEnabled
               (setBusy ((updateAmbientParticles (e\<lparr>lastFrameTime := ts\<rparr>) d)
                           \<lparr>slots := slots',
                             resolved := resolved (updateAmbientParticles (e\<lparr>lastFrameTime := ts\<rparr>) d) @ res\<rparr>)
                  hasTransition) True
        else setBusy ((updateAmbientParticles (e\<lparr>lastFrameTime := ts\<rparr>) d)
                           \<lparr>slots := slots',
                             resolved := resolved (updateAmbientParticles (e\<lparr>lastFrameTime := ts\<rparr>) d) @ res\<rparr>)
                  hasTransition) =
   e\<lparr>lastFrameTime := ts,
     ambientParticles := map (updateAmbientParticle e d) (ambientParticles e),
     slots := fst (renderSlots e ts d (slots e)),
     resolved := resolved e @ snd (snd (renderSlots e ts d (slots e))),
     busy := fst (snd (renderSlots e ts d (slots e))),
     busyLog := busyLog e @ (if busy e \<noteq> fst (snd (renderSlots e ts d (slots e)))
                             then [fst (snd (renderSlots e ts d (slots e)))] else []),
     interactionEnabled := (if fst (snd (renderSlots e ts d (slots e)))
                            then interactionEnabled e else True),
     pointerEvents := (if fst (snd (renderSlots e ts d (slots e))) then pointerEvents e
                       else if canvas e then PointerNone else pointerEvents e)\<rparr>"
proof -
  define e2 where "e2 = updateAmbientParticles (e\<lparr>lastFrameTime := ts\<rparr>) d"
  have rs: "renderSlots e2 ts d xs = renderSlots e ts d xs" for xs
    by (rule renderSlots_cong, rule updateImageParticle_env)
      (simp_all add: e2_def updateAmbientParticles_def)
  have am: "map (updateAmbientParticle (e\<lparr>lastFrameTime := ts\<rparr>) d) ps =
      map (updateAmbientParticle e d) ps" for ps
    by (rule map_cong [OF refl], rule updateAmbientParticle_env) simp_all
  have e2: "e2 = e\<lparr>lastFrameTime := ts,
      ambientParticles := map (updateAmbientParticle e d) (ambientParticles e)\<rparr>"
    by (simp add: e2_def updateAmbientParticles_def am)
  have sl: "slots e2 = slots e"
    by (simp add: e2)
  obtain a h c where r: "renderSlots e ts d (slots e) = (a, h, c)"
    by (cases "renderSlots e ts d (slots e)") auto
  show ?thesis
    unfolding e2_def [symmetric] sl rs r
    unfolding e2
    by (cases h; cases "busy e") (simp_all add: setBusy_def setInteractionEnabled_def)
qed

lemma render_expand:
  assumes "context2d e"
  shows "render e ts =
     (let d = clamp ((if lastFrameTime e = 0 then 16.67 else ts - lastFrameTime e) / 16.67) 0.6 1.6;
          r = renderSlots e ts d (slots e);
          h = fst (snd r)
      in e\<lparr>lastFrameTime := ts,
            ambientParticles := map (updateAmbientParticle e d) (ambientParticles e),
            slots := fst r,
            resolved := resolved e @ snd (snd r),
            busy := h,
            busyLog := busyLog e @ (if busy e \<noteq> h then [h] else []),
            interactionEnabled := (if h then interactionEnabled e else True),
            pointerEvents := (if h then pointerEvents e
                              else if canvas e then PointerNone else pointerEvents e)\<rparr>)"
  unfolding render_def Let_def
  using assms by (simp only: simp_thms if_False render_body)
text \<open>A slot without particles is passed over by the loop of \<^verbatim>\<open>render\<close>.\<close>

lemma renderSlots_skip_empty:
  assumes "getSlot xs i = Some s0" and "s_particles s0 = []" and "s_particles s1 = []"
  shows "renderSlots e ts d (putSlot xs i s1) =
           (putSlot (fst (renderSlots e ts d xs)) i s1, snd (renderSlots e ts d xs)) \<and>
         getSlot (fst (renderSlots e ts d xs)) i = Some s0"
  using assms
  by (induction xs) (auto split: prod.splits if_splits)

lemma render_skip_empty:
  assumes "getSlot (slots e) i = Some s0" and "s_particles s0 = []" and "s_particles s1 = []"
  shows "render (e\<lparr>slots := putSlot (slots e) i s1\<rparr>) ts =
           (render e ts)\<lparr>slots := putSlot (slots (render e ts)) i s1\<rparr> \<and>
         getSlot (slots (render e ts)) i = Some s0"
proof (cases "context2d e")
  case False
  then show ?thesis using assms(1) by (simp add: render_def)
next
  case True
  let ?e' = "e\<lparr>slots := putSlot (slots e) i s1\<rparr>"
  have c': "context2d ?e'" using True by simp
  have rs: "renderSlots ?e' ts d xs = renderSlots e ts d xs" for d xs
    by (rule renderSlots_cong, rule updateImageParticle_env) simp_all
  have am: "map (updateAmbientParticle ?e' d) ps = map (updateAmbientParticle e d) ps" for d ps
    by (rule map_cong [OF refl], rule updateAmbientParticle_env) simp_all
  note sk = renderSlots_skip_empty [OF assms]
  show ?thesis
    unfolding render_expand [OF True] render_expand [OF c']
    by (simp add: Let_def rs am sk)
qed

lemma frames_skip_empty:
  assumes "getSlot (slots e) i = Some s0" and "s_particles s0 = []" and "s_particles s1 = []"
  shows "frames (e\<lparr>slots := putSlot (slots e) i s1\<rparr>) tss =
           (frames e tss)\<lparr>slots := putSlot (slots (frames e tss)) i s1\<rparr> \<and>
         getSlot (slots (frames e tss)) i = Some s0"
  using assms
proof (induction tss arbitrary: e)
  case Nil
  then show ?case by simp
next
  case (Cons t tss)
  note step = render_skip_empty [OF Cons.prems, of t]
  from Cons.IH [OF conjunct2 [OF step] Cons.prems(2,3)] step
  show ?case by simp
qed

lemma seedParticles_nth:
  "k < length ps \<Longrightarrow>
   seedParticles r j st rect y ps ! k = seedParticle r (j + 4 * k) st rect y (ps ! k)"
proof (induction ps arbitrary: j k)
  case Nil
  then show ?case by simp
next
  case (Cons p ps)
  show ?case
  proof (cases k)
    case 0
    then show ?thesis by simp
  next
    case (Suc m)
    with Cons.prems have "m < length ps" by simp
    from Cons.IH [OF this, of "j + 4"] Suc show ?thesis
      by (simp add: add.assoc)
  qed
qed

lemma runTransition_rndPos:
  assumes "0 < rect_w (cfg_rect (s_config slot))" and "0 < rect_h (cfg_rect (s_config slot))"
  shows "rndPos (fst (runTransition e i slot st d dur now)) =
           rndPos e + 1 + 4 * length (s_particles slot)"
proof -
  have pos: "\<not> (rect_w (cfg_rect (s_config slot)) \<le> 0 \<or> rect_h (cfg_rect (s_config slot)) \<le> 0)"
    using assms by simp
  show ?thesis
    using pos
    by (simp add: runTransition_def Let_def setInteractionEnabled_def updateBusyState_def
        setBusy_def split: option.splits)
qed






subsection \<open>Settling a transition\<close>

text \<open>
  Claim C1, as amended. When \<^verbatim>\<open>updateTransition\<close> runs on a slot with an open transition, it
  resolves that transition's promise exactly when the time elapsed since the start has
  reached the requested duration and every particle is settled: on each axis the distance
  to the target is at most the settle distance, and each velocity component is at most the
  settle threshold in absolute value (a value equal to the bound counts as settled). It
  resolves no other promise, and leaves the transition open when it does not resolve.
  When an assembling transition resolves, the status is \<open>Assembled\<close>, alpha is 1, every
  particle is on its unchanged target with zero velocity; when a disassembling one
  resolves, the status is \<open>Hidden\<close>, the slot is not visible and alpha is 0.
\<close>

theorem updateTransition_resolves_iff_settled:
  assumes "s_transition slot = Some t"
  shows "(snd (updateTransition slot ts) = Some (t_resolve t)) =
           (t_durationMs t \<le> ts - t_startTime t \<and>
            (\<forall>p\<in>set (s_particles slot).
               \<bar>p_tx p - p_x p\<bar> \<le> TRANSITION_SETTLE_DISTANCE \<and>
               \<bar>p_ty p - p_y p\<bar> \<le> TRANSITION_SETTLE_DISTANCE \<and>
               \<bar>p_vx p\<bar> \<le> TRANSITION_SETTLE_VELOCITY \<and>
               \<bar>p_vy p\<bar> \<le> TRANSITION_SETTLE_VELOCITY))
         \<and> (snd (updateTransition slot ts) = None \<or>
            snd (updateTransition slot ts) = Some (t_resolve t))
         \<and> (snd (updateTransition slot ts) = None \<longrightarrow>
              s_transition (fst (updateTransition slot ts)) = Some t)
         \<and> (snd (updateTransition slot ts) \<noteq> None \<and> t_status t = Assembling \<longrightarrow>
              s_transition (fst (updateTransition slot ts)) = None \<and>
              s_status (fst (updateTransition slot ts)) = Assembled \<and>
              s_alpha (fst (updateTransition slot ts)) = 1 \<and>
              (\<forall>p\<in>set (s_particles (fst (updateTransition slot ts))).
                 p_x p = p_tx p \<and> p_y p = p_ty p \<and> p_vx p = 0 \<and> p_vy p = 0) \<and>
              map p_tx (s_particles (fst (updateTransition slot ts))) = map p_tx (s_particles slot) \<and>
              map p_ty (s_particles (fst (updateTransition slot ts))) = map p_ty (s_particles slot))
         \<and> (snd (updateTransition slot ts) \<noteq> None \<and> t_status t = Disassembling \<longrightarrow>
              s_transition (fst (updateTransition slot ts)) = None \<and>
              s_status (fst (updateTransition slot ts)) = Hidden \<and>
              \<not> s_visible (fst (updateTransition slot ts)) \<and>
              s_alpha (fst (updateTransition slot ts)) = 0)"
  using assms snapToTarget_on_target [of "s_particles slot"] snapToTarget_targets [of "s_particles slot"]
  by (cases "t_status t") (auto simp: updateTransition_def Let_def settledLoop_iff not_less)

theorem updateTransition_resolves_witness:
  "s_transition (ex_slot [ex_particle] SlotAssembling (Some (ex_transition Assembling))) =
     Some (ex_transition Assembling) \<and>
   snd (updateTransition (ex_slot [ex_particle] SlotAssembling (Some (ex_transition Assembling))) 1200) =
     Some 0 \<and>
   s_status (fst (updateTransition (ex_slot [ex_particle] SlotAssembling (Some (ex_transition Assembling))) 1200)) =
     Assembled"
proof -
  let ?slot = "ex_slot [ex_particle] SlotAssembling (Some (ex_transition Assembling))"
  have h: "s_transition ?slot = Some (ex_transition Assembling)"
    by (simp add: ex_slot_def)
  have st: "t_status (ex_transition Assembling) = Assembling"
    and dur: "t_durationMs (ex_transition Assembling) \<le> 1200 - t_startTime (ex_transition Assembling)"
    and res: "t_resolve (ex_transition Assembling) = 0"
    by (simp_all add: ex_transition_def)
  have conv: "\<forall>p\<in>set (s_particles ?slot).
               \<bar>p_tx p - p_x p\<bar> \<le> TRANSITION_SETTLE_DISTANCE \<and>
               \<bar>p_ty p - p_y p\<bar> \<le> TRANSITION_SETTLE_DISTANCE \<and>
               \<bar>p_vx p\<bar> \<le> TRANSITION_SETTLE_VELOCITY \<and>
               \<bar>p_vy p\<bar> \<le> TRANSITION_SETTLE_VELOCITY"
    by (simp add: ex_slot_def ex_particle_def const_defs)
  note inst = updateTransition_resolves_iff_settled [OF h, of 1200]
  from inst dur conv have r: "snd (updateTransition ?slot 1200) = Some 0"
    unfolding res by blast
  with inst st have "s_status (fst (updateTransition ?slot 1200)) = Assembled"
    by simp
  with h r show ?thesis by simp
qed

text \<open>
  The claim as written asks for velocity components below the threshold: a particle whose
  horizontal velocity equals the threshold is settled all the same.
\<close>

theorem settle_threshold_inclusive_counterexample:
  "snd (updateTransition (ex_slot [edge_particle] SlotAssembling (Some (ex_transition Assembling))) 1200) =
     Some 0 \<and>
   \<not> \<bar>p_vx edge_particle\<bar> < TRANSITION_SETTLE_VELOCITY"
  by (simp add: updateTransition_def ex_defs const_defs edge_particle_def)

subsection \<open>Assembling a slot that is already assembled\<close>

text \<open>
  Claim C2, as amended. \<^verbatim>\<open>assemble\<close> on a registered slot that is already assembled (no
  transition open, image loaded, rect of positive area) starts a new transition like any
  other call: the status becomes \<open>SlotAssembling\<close>, alpha is set to 0, and the call returns
  a new promise that it does not resolve. It draws one random value for the start line
  and four for each particle, and sets every particle's position and velocity from them:
  \<open>x\<close> is the rect's left edge plus the first value times the rect's width, \<open>y\<close> is the
  start line minus the second value times a quarter of the rect's height, the horizontal
  velocity is \<open>-0.35\<close> plus the third value times \<open>0.7\<close>, the vertical velocity \<open>1.2\<close> plus
  the fourth value times \<open>2.4\<close>. The start line is, for direction \<open>Top\<close>, minus (40 plus
  the value times the rest up to the larger of 120 and 1.25 rect heights) and, for
  \<open>Bottom\<close>, the viewport height plus 16 plus the value times the rest up to the larger of
  48 and 0.6 rect heights. Targets, colour, weight, size and the number of particles stay.
\<close>

theorem assemble_on_assembled_restarts:
  assumes "getSlot (slots e) i = Some slot"
    and "s_status slot = Assembled" and "s_transition slot = None"
    and "complete (s_image slot)"
    and "0 < rect_w (cfg_rect (s_config slot))" and "0 < rect_h (cfg_rect (s_config slot))"
  shows "snd (assemble e i opts now) = Pending (nextPromise e) \<and>
         resolved (fst (assemble e i opts now)) = resolved e \<and>
         rndPos (fst (assemble e i opts now)) = rndPos e + 1 + 4 * length (s_particles slot) \<and>
         (\<exists>slot'. getSlot (slots (fst (assemble e i opts now))) i = Some slot' \<and>
            s_status slot' = SlotAssembling \<and> s_alpha slot' = 0 \<and> s_visible slot' \<and>
            (\<exists>t. s_transition slot' = Some t \<and> t_status t = Assembling \<and>
                 t_resolve t = nextPromise e \<and> t_startTime t = now) \<and>
            s_particles slot' =
              seedParticles (rnd e) (rndPos e + 1) Assembling (cfg_rect (s_config slot))
                (getOffscreenY e (rndPos e)
                   (case opt_direction opts of None \<Rightarrow> cfg_direction (s_config slot) | Some d \<Rightarrow> d)
                   (cfg_rect (s_config slot)))
                (s_particles slot) \<and>
            length (s_particles slot') = length (s_particles slot) \<and>
            map p_tx (s_particles slot') = map p_tx (s_particles slot) \<and>
            map p_ty (s_particles slot') = map p_ty (s_particles slot) \<and>
            (\<forall>k<length (s_particles slot).
               p_x (s_particles slot' ! k) =
                 rect_x (cfg_rect (s_config slot)) +
                 rnd e (rndPos e + 1 + 4 * k) * rect_w (cfg_rect (s_config slot)) \<and>
               p_y (s_particles slot' ! k) =
                 (if (case opt_direction opts of None \<Rightarrow> cfg_direction (s_config slot)
                      | Some d \<Rightarrow> d) = Bottom
                  then height e +
                       (16 + rnd e (rndPos e) * (max 48 (rect_h (cfg_rect (s_config slot)) * 0.6) - 16))
                  else - (40 + rnd e (rndPos e) *
                            (max 120 (rect_h (cfg_rect (s_config slot)) * 1.25) - 40))) -
                 rnd e (rndPos e + 2 + 4 * k) * (rect_h (cfg_rect (s_config slot)) * 0.25) \<and>
               p_vx (s_particles slot' ! k) = - 0.35 + rnd e (rndPos e + 3 + 4 * k) * 0.7 \<and>
               p_vy (s_particles slot' ! k) = 1.2 + rnd e (rndPos e + 4 + 4 * k) * 2.4 \<and>
               p_tx (s_particles slot' ! k) = p_tx (s_particles slot ! k) \<and>
               p_ty (s_particles slot' ! k) = p_ty (s_particles slot ! k) \<and>
               p_color (s_particles slot' ! k) = p_color (s_particles slot ! k) \<and>
               p_alpha (s_particles slot' ! k) = p_alpha (s_particles slot ! k) \<and>
               p_size (s_particles slot' ! k) = p_size (s_particles slot ! k)))"
proof -
  let ?d = "case opt_direction opts of None \<Rightarrow> cfg_direction (s_config slot) | Some d \<Rightarrow> d"
  let ?dur = "case opt_durationMs opts of None \<Rightarrow> DEFAULT_DURATION_MS | Some d \<Rightarrow> d"
  let ?rect = "cfg_rect (s_config slot)"
  let ?ps = "seedParticles (rnd e) (rndPos e + 1) Assembling ?rect
      (getOffscreenY e (rndPos e) ?d ?rect) (s_particles slot)"
  have a: "assemble e i opts now = runTransition e i slot Assembling ?d ?dur now"
    using assms(1,4) by (simp add: assemble_def)
  note r = runTransition_opened [OF assms(1,5,6), of Assembling ?d ?dur now]
  note rp = runTransition_rndPos [OF assms(5,6), of e i Assembling ?d ?dur now]
  have each: "p_x (?ps ! k) = rect_x ?rect + rnd e (rndPos e + 1 + 4 * k) * rect_w ?rect \<and>
      p_y (?ps ! k) =
        (if ?d = Bottom
         then height e + (16 + rnd e (rndPos e) * (max 48 (rect_h ?rect * 0.6) - 16))
         else - (40 + rnd e (rndPos e) * (max 120 (rect_h ?rect * 1.25) - 40))) -
        rnd e (rndPos e + 2 + 4 * k) * (rect_h ?rect * 0.25) \<and>
      p_vx (?ps ! k) = - 0.35 + rnd e (rndPos e + 3 + 4 * k) * 0.7 \<and>
      p_vy (?ps ! k) = 1.2 + rnd e (rndPos e + 4 + 4 * k) * 2.4 \<and>
      p_tx (?ps ! k) = p_tx (s_particles slot ! k) \<and>
      p_ty (?ps ! k) = p_ty (s_particles slot ! k) \<and>
      p_color (?ps ! k) = p_color (s_particles slot ! k) \<and>
      p_alpha (?ps ! k) = p_alpha (s_particles slot ! k) \<and>
      p_size (?ps ! k) = p_size (s_particles slot ! k)"
    if "k < length (s_particles slot)" for k
  proof -
    have idx: "rndPos e + 1 + 4 * k + 1 = rndPos e + 2 + 4 * k"
      "rndPos e + 1 + 4 * k + 2 = rndPos e + 3 + 4 * k"
      "rndPos e + 1 + 4 * k + 3 = rndPos e + 4 + 4 * k"
      by simp_all
    show ?thesis
      unfolding seedParticles_nth [OF that] seedParticle_def idx
      by (simp add: randomBetween_def getOffscreenY_def)
  qed
  show ?thesis
    unfolding a
    using r(1) r(2) r(3) rp assms(3) each
    by (simp add: seedParticles_length seedParticles_assembling_targets)
qed

theorem assemble_on_assembled_witness:
  "getSlot (slots (ex_engine assembled_slot)) Hero = Some assembled_slot \<and>
   s_status assembled_slot = Assembled \<and> s_transition assembled_slot = None \<and>
   complete (s_image assembled_slot) \<and>
   0 < rect_w (cfg_rect (s_config assembled_slot)) \<and>
   0 < rect_h (cfg_rect (s_config assembled_slot)) \<and>
   snd (assemble (ex_engine assembled_slot) Hero no_opts 5) = Pending 1 \<and>
   resolved (fst (assemble (ex_engine assembled_slot) Hero no_opts 5)) = [] \<and>
   rndPos (fst (assemble (ex_engine assembled_slot) Hero no_opts 5)) = 5 \<and>
   map_option (map p_x \<circ> s_particles)
     (getSlot (slots (fst (assemble (ex_engine assembled_slot) Hero no_opts 5))) Hero) = Some [2] \<and>
   map_option (map p_vy \<circ> s_particles)
     (getSlot (slots (fst (assemble (ex_engine assembled_slot) Hero no_opts 5))) Hero) = Some [2.4]"
proof -
  have h: "getSlot (slots (ex_engine assembled_slot)) Hero = Some assembled_slot"
    by (simp add: ex_engine_def)
  have s: "s_status assembled_slot = Assembled" "s_transition assembled_slot = None"
    "complete (s_image assembled_slot)"
    "0 < rect_w (cfg_rect (s_config assembled_slot))"
    "0 < rect_h (cfg_rect (s_config assembled_slot))"
    by (simp_all add: assembled_slot_def ex_slot_def ex_image_def ex_config_def complete_def)
  have n: "length (s_particles assembled_slot) = 1"
    by (simp add: assembled_slot_def ex_slot_def)
  have v: "nextPromise (ex_engine assembled_slot) = 1" "resolved (ex_engine assembled_slot) = []"
    "rndPos (ex_engine assembled_slot) = 0" "rnd (ex_engine assembled_slot) k = 1 / 2"
    "rect_x (cfg_rect (s_config assembled_slot)) = 0"
    "rect_w (cfg_rect (s_config assembled_slot)) = 4" for k
    by (simp_all add: ex_engine_def assembled_slot_def ex_slot_def ex_config_def)
  note inst = assemble_on_assembled_restarts [OF h s, of no_opts 5]
  from inst obtain slot' where
    g: "getSlot (slots (fst (assemble (ex_engine assembled_slot) Hero no_opts 5))) Hero = Some slot'"
    and l: "length (s_particles slot') = length (s_particles assembled_slot)"
    and e: "\<forall>k<length (s_particles assembled_slot).
        p_x (s_particles slot' ! k) =
          rect_x (cfg_rect (s_config assembled_slot)) +
          rnd (ex_engine assembled_slot) (rndPos (ex_engine assembled_slot) + 1 + 4 * k) *
          rect_w (cfg_rect (s_config assembled_slot)) \<and>
        p_vy (s_particles slot' ! k) =
          1.2 + rnd (ex_engine assembled_slot) (rndPos (ex_engine assembled_slot) + 4 + 4 * k) * 2.4"
    by blast
  from l n obtain q where q: "s_particles slot' = [q]"
    by (cases "s_particles slot'") auto
  from e n have "p_x (s_particles slot' ! 0) = 2 \<and> p_vy (s_particles slot' ! 0) = 2.4"
    unfolding v by simp
  with q g have p: "map_option (map p_x \<circ> s_particles)
      (getSlot (slots (fst (assemble (ex_engine assembled_slot) Hero no_opts 5))) Hero) = Some [2]"
    "map_option (map p_vy \<circ> s_particles)
      (getSlot (slots (fst (assemble (ex_engine assembled_slot) Hero no_opts 5))) Hero) = Some [2.4]"
    by simp_all
  from inst have "snd (assemble (ex_engine assembled_slot) Hero no_opts 5) = Pending 1"
    "resolved (fst (assemble (ex_engine assembled_slot) Hero no_opts 5)) = []"
    "rndPos (fst (assemble (ex_engine assembled_slot) Hero no_opts 5)) = 5"
    unfolding v n by simp_all
  with h s p show ?thesis by simp
qed

text \<open>
  The claim as written fails: the assembled example slot, with alpha 1 and its particle at
  rest on its target \<open>(5, 3)\<close>, is assembling with alpha 0 after the call, and the particle
  has been moved to \<open>(2, -80.25)\<close> with velocity \<open>(0, 2.4)\<close>.
\<close>

theorem assemble_on_assembled_counterexample:
  "s_status assembled_slot = Assembled \<and> s_alpha assembled_slot = 1 \<and>
   map p_x (s_particles assembled_slot) = [5] \<and> map p_y (s_particles assembled_slot) = [3] \<and>
   map p_vx (s_particles assembled_slot) = [0] \<and> map p_vy (s_particles assembled_slot) = [0] \<and>
   map_option s_status (getSlot (slots (fst (assemble (ex_engine assembled_slot) Hero no_opts 5))) Hero) =
     Some SlotAssembling \<and>
   map_option s_alpha (getSlot (slots (fst (assemble (ex_engine assembled_slot) Hero no_opts 5))) Hero) =
     Some 0 \<and>
   map_option (map p_x \<circ> s_particles)
     (getSlot (slots (fst (assemble (ex_engine assembled_slot) Hero no_opts 5))) Hero) = Some [2] \<and>
   map_option (map p_y \<circ> s_particles)
     (getSlot (slots (fst (assemble (ex_engine assembled_slot) Hero no_opts 5))) Hero) = Some [- 80.25] \<and>
   map_option (map p_vx \<circ> s_particles)
     (getSlot (slots (fst (assemble (ex_engine assembled_slot) Hero no_opts 5))) Hero) = Some [0] \<and>
   map_option (map p_vy \<circ> s_particles)
     (getSlot (slots (fst (assemble (ex_engine assembled_slot) Hero no_opts 5))) Hero) = Some [2.4] \<and>
   snd (assemble (ex_engine assembled_slot) Hero no_opts 5) = Pending 1 \<and>
   resolved (fst (assemble (ex_engine assembled_slot) Hero no_opts 5)) = []"
  by (simp add: assemble_def runTransition_def Let_def setInteractionEnabled_def
      updateBusyState_def setBusy_def getOffscreenY_def seedParticle_def randomBetween_def
      complete_def assembled_slot_def no_opts_def ex_defs const_defs)

subsection \<open>Superseding an open transition\<close>



subsection \<open>The rect precondition\<close>

text \<open>
  Claim C4. On a registered slot whose rect has width or height at most 0, \<^verbatim>\<open>assemble\<close> and
  \<^verbatim>\<open>disassemble\<close> leave the whole engine as it was: status, alpha, visibility, particles
  and an open transition with its unresolved promise, and also the promise log, the busy
  flag and the interaction flag. Once the image is loaded the call throws the
  not-measurable error.
\<close>

theorem degenerate_rect_throws_before_mutation:
  assumes "getSlot (slots e) i = Some slot"
    and "rect_w (cfg_rect (s_config slot)) \<le> 0 \<or> rect_h (cfg_rect (s_config slot)) \<le> 0"
  shows "fst (assemble e i opts now) = e \<and> fst (disassemble e i opts now) = e \<and>
         (complete (s_image slot) \<longrightarrow>
            snd (assemble e i opts now) = Thrown NoMeasurableRect \<and>
            snd (disassemble e i opts now) = Thrown NoMeasurableRect)"
  using assms by (auto simp: assemble_def disassemble_def runTransition_def Let_def)

theorem degenerate_rect_throws_witness:
  "getSlot (slots (ex_engine unmeasured_slot)) Hero = Some unmeasured_slot \<and>
   rect_w (cfg_rect (s_config unmeasured_slot)) \<le> 0 \<and>
   complete (s_image unmeasured_slot) \<and>
   assemble (ex_engine unmeasured_slot) Hero no_opts 5 =
     (ex_engine unmeasured_slot, Thrown NoMeasurableRect) \<and>
   disassemble (ex_engine unmeasured_slot) Hero no_opts 5 =
     (ex_engine unmeasured_slot, Thrown NoMeasurableRect)"
proof -
  have h: "getSlot (slots (ex_engine unmeasured_slot)) Hero = Some unmeasured_slot"
    by (simp add: ex_engine_def)
  have r: "rect_w (cfg_rect (s_config unmeasured_slot)) \<le> 0"
    by (simp add: unmeasured_slot_def zero_rect_def)
  have c: "complete (s_image unmeasured_slot)"
    by (simp add: unmeasured_slot_def ex_slot_def ex_image_def complete_def)
  from r have r': "rect_w (cfg_rect (s_config unmeasured_slot)) \<le> 0 \<or>
      rect_h (cfg_rect (s_config unmeasured_slot)) \<le> 0" ..
  from degenerate_rect_throws_before_mutation [OF h r', of no_opts 5] c h r
  show ?thesis by (simp add: prod_eq_iff)
qed

subsection \<open>The busy flag\<close>

text \<open>
  Claim C5, as amended. A call of \<^verbatim>\<open>assemble\<close> or \<^verbatim>\<open>disassemble\<close> that opens a transition sets
  the busy flag, and calls the busy callback with \<open>True\<close> exactly if the flag was not set.
  A frame sets the busy flag to whether, when the frame began, some visible slot with at
  least one particle had an open transition, and calls the callback with the new value
  exactly if the flag changed. So when every open transition is on a visible slot with
  particles, the flag after a frame says whether a transition was open when the frame
  began: it stays set through the frame in which the last transition settles and is
  cleared by the frame after.
\<close>

theorem busy_flag_follows_frames:
  "(context2d e \<longrightarrow>
      busy (render e ts) =
        (\<exists>ks\<in>set (slots e). s_visible (snd ks) \<and> s_particles (snd ks) \<noteq> [] \<and>
           s_transition (snd ks) \<noteq> None) \<and>
      busyLog (render e ts) =
        busyLog e @ (if busy (render e ts) = busy e then [] else [busy (render e ts)]) \<and>
      ((\<forall>ks\<in>set (slots e). s_transition (snd ks) \<noteq> None \<longrightarrow>
           s_visible (snd ks) \<and> s_particles (snd ks) \<noteq> []) \<longrightarrow>
         busy (render e ts) = hasOpenTransition (slots e))) \<and>
   (getSlot (slots e) i = Some slot \<and> complete (s_image slot) \<and>
    0 < rect_w (cfg_rect (s_config slot)) \<and> 0 < rect_h (cfg_rect (s_config slot)) \<longrightarrow>
      busy (fst (assemble e i opts now)) \<and>
      hasOpenTransition (slots (fst (assemble e i opts now))) \<and>
      busyLog (fst (assemble e i opts now)) = busyLog e @ (if busy e then [] else [True]) \<and>
      busy (fst (disassemble e i opts now)) \<and>
      hasOpenTransition (slots (fst (disassemble e i opts now))) \<and>
      busyLog (fst (disassemble e i opts now)) = busyLog e @ (if busy e then [] else [True]))"
proof (intro conjI impI)
  assume c: "context2d e"
  show b: "busy (render e ts) =
        (\<exists>ks\<in>set (slots e). s_visible (snd ks) \<and> s_particles (snd ks) \<noteq> [] \<and>
           s_transition (snd ks) \<noteq> None)"
    by (rule render_busy(1) [OF c])
  show "busyLog (render e ts) =
        busyLog e @ (if busy (render e ts) = busy e then [] else [busy (render e ts)])"
    unfolding render_busy(2) [OF c, of ts] b by auto
  assume "\<forall>ks\<in>set (slots e). s_transition (snd ks) \<noteq> None \<longrightarrow>
           s_visible (snd ks) \<and> s_particles (snd ks) \<noteq> []"
  then show "busy (render e ts) = hasOpenTransition (slots e)"
    unfolding b hasOpenTransition_iff by blast
next
  assume h: "getSlot (slots e) i = Some slot \<and> complete (s_image slot) \<and>
    0 < rect_w (cfg_rect (s_config slot)) \<and> 0 < rect_h (cfg_rect (s_config slot))"
  let ?d = "case opt_direction opts of None \<Rightarrow> cfg_direction (s_config slot) | Some d \<Rightarrow> d"
  let ?dur = "case opt_durationMs opts of None \<Rightarrow> DEFAULT_DURATION_MS | Some d \<Rightarrow> d"
  have a: "assemble e i opts now = runTransition e i slot Assembling ?d ?dur now"
    using h by (simp add: assemble_def)
  have d: "disassemble e i opts now = runTransition e i slot Disassembling ?d ?dur now"
    using h by (simp add: disassemble_def)
  from h have g: "getSlot (slots e) i = Some slot"
    and w: "0 < rect_w (cfg_rect (s_config slot))" and ht: "0 < rect_h (cfg_rect (s_config slot))"
    by simp_all
  note r = runTransition_opened [OF g w ht]
  show "busy (fst (assemble e i opts now))"
    unfolding a by (rule r(4))
  show "hasOpenTransition (slots (fst (assemble e i opts now)))"
    unfolding a by (rule r(6))
  show "busyLog (fst (assemble e i opts now)) = busyLog e @ (if busy e then [] else [True])"
    unfolding a by (rule r(5))
  show "busy (fst (disassemble e i opts now))"
    unfolding d by (rule r(4))
  show "hasOpenTransition (slots (fst (disassemble e i opts now)))"
    unfolding d by (rule r(6))
  show "busyLog (fst (disassemble e i opts now)) = busyLog e @ (if busy e then [] else [True])"
    unfolding d by (rule r(5))
qed

theorem busy_flag_witness:
  "context2d busy_engine \<and> hasOpenTransition (slots busy_engine) \<and>
   busy (render busy_engine 1200) \<and> busyLog (render busy_engine 1200) = [] \<and>
   getSlot (slots (ex_engine assembled_slot)) Hero = Some assembled_slot \<and>
   complete (s_image assembled_slot) \<and>
   0 < rect_w (cfg_rect (s_config assembled_slot)) \<and>
   0 < rect_h (cfg_rect (s_config assembled_slot)) \<and>
   busy (fst (assemble (ex_engine assembled_slot) Hero no_opts 5)) \<and>
   busyLog (fst (assemble (ex_engine assembled_slot) Hero no_opts 5)) = [True]"
proof -
  have c: "context2d busy_engine"
    and v: "\<forall>ks\<in>set (slots busy_engine). s_transition (snd ks) \<noteq> None \<longrightarrow>
       s_visible (snd ks) \<and> s_particles (snd ks) \<noteq> []"
    and o: "hasOpenTransition (slots busy_engine)" "busy busy_engine" "busyLog busy_engine = []"
    by (simp_all add: busy_engine_def ex_engine_def assembling_slot_def ex_slot_def)
  have h: "getSlot (slots (ex_engine assembled_slot)) Hero = Some assembled_slot"
    "complete (s_image assembled_slot)"
    "0 < rect_w (cfg_rect (s_config assembled_slot))"
    "0 < rect_h (cfg_rect (s_config assembled_slot))"
    "\<not> busy (ex_engine assembled_slot)" "busyLog (ex_engine assembled_slot) = []"
    by (simp_all add: ex_engine_def assembled_slot_def ex_slot_def ex_image_def ex_config_def
        complete_def)
  note inst = busy_flag_follows_frames [of busy_engine 1200 Hero assembling_slot no_opts 5]
  from inst c v have b: "busy (render busy_engine 1200) = hasOpenTransition (slots busy_engine)"
    by blast
  from inst c have "busyLog (render busy_engine 1200) =
      busyLog busy_engine @
        (if busy (render busy_engine 1200) = busy busy_engine then []
         else [busy (render busy_engine 1200)])"
    by blast
  with b o have f: "busy (render busy_engine 1200) \<and> busyLog (render busy_engine 1200) = []"
    by simp
  from busy_flag_follows_frames [of "ex_engine assembled_slot" 0 Hero assembled_slot no_opts 5] h
  have g: "busy (fst (assemble (ex_engine assembled_slot) Hero no_opts 5)) \<and>
      busyLog (fst (assemble (ex_engine assembled_slot) Hero no_opts 5)) = [True]"
    by simp
  from c o f g h show ?thesis by simp
qed

text \<open>
  The flag is not always equal to "some slot has an open transition": the frame at 1200 ms
  settles the only open transition and resolves its promise, and after that frame no slot
  has a transition while the flag is still set. The next frame clears it and calls the
  callback with \<open>False\<close>.
\<close>

theorem busy_flag_lags_counterexample:
  "busy (render busy_engine 1200) \<and>
   \<not> hasOpenTransition (slots (render busy_engine 1200)) \<and>
   resolved (render busy_engine 1200) = [0] \<and>
   busyLog (render busy_engine 1200) = [] \<and>
   \<not> busy (render (render busy_engine 1200) 1216) \<and>
   busyLog (render (render busy_engine 1200) 1216) = [False]"
  by (simp add: render_def Let_def updateTransition_def updateImageParticles_def
      updateImageParticle_def updateAmbientParticles_def setBusy_def setInteractionEnabled_def
      snapParticle_def clamp_def busy_engine_def assembling_slot_def ex_defs const_defs)

subsection \<open>Sampling\<close>

text \<open>
  Claim C6, as amended. For a slot with a loaded image and a rect of positive area, where
  the pixel data has four bytes for each pixel of the rounded rect, \<^verbatim>\<open>prepareParticles\<close>
  produces exactly the point list of the contract: it visits the pixel grid of the rounded
  rect at a stride of 2 pixels, row by row, and keeps a pixel exactly when its alpha
  channel is at least the threshold 24 (a pixel with alpha 24 is kept); each kept sample
  lies at the rect origin plus the pixel coordinate plus 1 (half the stride), has the
  pixel's colour and the weight alpha / 255. The result depends on the image and the rect
  only: sampling again, or sampling from other particles and another status, gives the
  same list.
\<close>

theorem prepareParticles_samples_grid:
  assumes "0 < rect_w (cfg_rect (s_config slot))" and "0 < rect_h (cfg_rect (s_config slot))"
    and "complete (s_image slot)"
    and "length (img_data (s_image slot)
                  (nat (max 1 (mathRound (rect_w (cfg_rect (s_config slot))))))
                  (nat (max 1 (mathRound (rect_h (cfg_rect (s_config slot))))))) =
         4 * nat (max 1 (mathRound (rect_w (cfg_rect (s_config slot))))) *
             nat (max 1 (mathRound (rect_h (cfg_rect (s_config slot)))))"
  shows "s_particles (prepareParticles slot) =
           spec_samples 24
             (img_data (s_image slot)
                (nat (max 1 (mathRound (rect_w (cfg_rect (s_config slot))))))
                (nat (max 1 (mathRound (rect_h (cfg_rect (s_config slot)))))))
             (cfg_rect (s_config slot))
             (nat (max 1 (mathRound (rect_w (cfg_rect (s_config slot))))))
             (nat (max 1 (mathRound (rect_h (cfg_rect (s_config slot)))))) \<and>
         s_particles (prepareParticles (prepareParticles slot)) = s_particles (prepareParticles slot) \<and>
         s_particles (prepareParticles (slot\<lparr>s_particles := ps, s_status := st, s_alpha := al\<rparr>)) =
           s_particles (prepareParticles slot)"
proof -
  have same: "s_config (prepareParticles slot) = s_config slot"
    "s_image (prepareParticles slot) = s_image slot"
    by (simp_all add: prepareParticles_def Let_def)
  have "s_particles (prepareParticles (prepareParticles slot)) = s_particles (prepareParticles slot)"
    using assms(1-3)
    by (simp add: prepareParticles_sampled same)
  moreover have "s_particles (prepareParticles (slot\<lparr>s_particles := ps, s_status := st, s_alpha := al\<rparr>)) =
      s_particles (prepareParticles slot)"
    using assms(1-3) by (simp add: prepareParticles_sampled)
  moreover have "MIN_ALPHA_THRESHOLD = 24"
    by (simp add: MIN_ALPHA_THRESHOLD_def)
  ultimately show ?thesis
    using prepareParticles_sampled [OF assms(1-3)] by simp
qed

theorem prepareParticles_samples_witness:
  "0 < rect_w (cfg_rect (s_config unsampled_slot)) \<and>
   0 < rect_h (cfg_rect (s_config unsampled_slot)) \<and>
   complete (s_image unsampled_slot) \<and>
   length (img_data (s_image unsampled_slot) 4 2) = 4 * 4 * 2 \<and>
   map (\<lambda>p. (p_x p, p_y p, p_alpha p)) (s_particles (prepareParticles unsampled_slot)) =
     [(1, 1, 1), (3, 1, 1)]"
proof -
  have r: "nat (max 1 (mathRound (rect_w (cfg_rect (s_config unsampled_slot))))) = 4"
    "nat (max 1 (mathRound (rect_h (cfg_rect (s_config unsampled_slot))))) = 2"
    by (simp_all add: unsampled_slot_def ex_slot_def ex_config_def mathRound_def)
  have h: "0 < rect_w (cfg_rect (s_config unsampled_slot))"
    "0 < rect_h (cfg_rect (s_config unsampled_slot))"
    "complete (s_image unsampled_slot)"
    by (simp_all add: unsampled_slot_def ex_slot_def ex_config_def ex_image_def complete_def)
  have l: "length (img_data (s_image unsampled_slot) 4 2) = 4 * 4 * 2"
    by (simp add: unsampled_slot_def ex_slot_def ex_image_def)
  have g: "gridCoords 4 = [0, 2]" "gridCoords 2 = [0]"
    unfolding gridCoords_def by code_simp+
  have d: "img_data (s_image unsampled_slot) 4 2 = replicate 32 255"
    and c: "cfg_rect (s_config unsampled_slot) = \<lparr>rect_x = 0, rect_y = 0, rect_w = 4, rect_h = 2\<rparr>"
    by (simp_all add: unsampled_slot_def ex_slot_def ex_image_def ex_config_def)
  have "s_particles (prepareParticles unsampled_slot) =
      spec_samples 24 (img_data (s_image unsampled_slot) 4 2)
        (cfg_rect (s_config unsampled_slot)) 4 2"
    using prepareParticles_samples_grid [OF h, of _ _ _] l unfolding r by simp
  then have "map (\<lambda>p. (p_x p, p_y p, p_alpha p)) (s_particles (prepareParticles unsampled_slot)) =
      [(1, 1, 1), (3, 1, 1)]"
    unfolding d c by (simp add: spec_samples_def spec_sample_def g)
  with h l show ?thesis by simp
qed

text \<open>
  The claim as written keeps a sample only when its alpha exceeds the threshold. The
  one-pixel image whose alpha is exactly 24 gives one particle, with weight 24 / 255.
\<close>

theorem alpha_at_threshold_kept_counterexample:
  "unat (img_data (s_image faint_slot) 1 1 ! 3) = 24 \<and>
   \<not> MIN_ALPHA_THRESHOLD < unat (img_data (s_image faint_slot) 1 1 ! 3) \<and>
   map p_x (s_particles (prepareParticles faint_slot)) = [101] \<and>
   map p_y (s_particles (prepareParticles faint_slot)) = [51] \<and>
   map p_alpha (s_particles (prepareParticles faint_slot)) = [24 / 255]"
  by (simp add: prepareParticles_def Let_def sampleRows.simps sampleRow.simps sampleParticle_def
      mathRound_def complete_def faint_slot_def faint_image_def ex_config_def
      MIN_ALPHA_THRESHOLD_def SAMPLE_STEP_def PARTICLE_SIZE_def)

subsection \<open>Alpha smoothing\<close>

text \<open>
  Claim C7, as amended. A frame update that leaves the transition open moves an assembling
  slot's alpha toward 1 by the factor \<open>ASSEMBLE_ALPHA_RATE\<close> and a disassembling slot's alpha
  toward 0 by the separate factor \<open>DISASSEMBLE_ALPHA_RATE\<close>, which is the smaller of the
  two: disassembly fades more slowly than assembly brightens.
\<close>

theorem updateTransition_alpha_smoothing:
  assumes "s_transition slot = Some t" and "snd (updateTransition slot ts) = None"
  shows "s_alpha (fst (updateTransition slot ts)) =
           (if t_status t = Assembling
            then s_alpha slot + (1 - s_alpha slot) * ASSEMBLE_ALPHA_RATE
            else s_alpha slot + (0 - s_alpha slot) * DISASSEMBLE_ALPHA_RATE)
         \<and> 0 < DISASSEMBLE_ALPHA_RATE \<and> DISASSEMBLE_ALPHA_RATE < ASSEMBLE_ALPHA_RATE
         \<and> ASSEMBLE_ALPHA_RATE < 1"
  using assms
  by (auto simp: updateTransition_def Let_def ASSEMBLE_ALPHA_RATE_def DISASSEMBLE_ALPHA_RATE_def
      split: if_splits)

theorem updateTransition_alpha_smoothing_witness:
  "s_transition (ex_slot [ex_particle] SlotAssembling (Some (ex_transition Assembling))) =
     Some (ex_transition Assembling) \<and>
   snd (updateTransition (ex_slot [ex_particle] SlotAssembling (Some (ex_transition Assembling))) 16) = None \<and>
   s_alpha (fst (updateTransition (ex_slot [ex_particle] SlotAssembling (Some (ex_transition Assembling))) 16)) = 0.56"
proof -
  let ?slot = "ex_slot [ex_particle] SlotAssembling (Some (ex_transition Assembling))"
  have h: "s_transition ?slot = Some (ex_transition Assembling)"
    by (simp add: ex_slot_def)
  have n: "snd (updateTransition ?slot 16) = None"
    by (simp add: updateTransition_def ex_slot_def ex_transition_def)
  have "s_alpha (fst (updateTransition ?slot 16)) = 0.56"
    using updateTransition_alpha_smoothing [OF h n]
    by (simp add: ex_slot_def ex_transition_def ASSEMBLE_ALPHA_RATE_def)
  with h n show ?thesis by simp
qed

text \<open>
  The disassemble rate is not greater than the assemble rate: from alpha one half, one
  frame raises an assembling slot by 0.06 and lowers a disassembling slot by 0.05.
\<close>

theorem disassemble_rate_not_faster_counterexample:
  "\<not> ASSEMBLE_ALPHA_RATE < DISASSEMBLE_ALPHA_RATE \<and>
   s_alpha (fst (updateTransition (ex_slot [ex_particle] SlotAssembling (Some (ex_transition Assembling))) 16)) - 1 / 2 = 0.06 \<and>
   1 / 2 - s_alpha (fst (updateTransition (ex_slot [ex_particle] SlotDisassembling (Some (ex_transition Disassembling))) 16)) = 0.05"
  by (simp add: updateTransition_def ex_defs const_defs)

subsection \<open>Pointer forces while interaction is disabled\<close>

text \<open>
  Claim C8, as amended. While interaction is disabled, a frame's effect on the slots does
  not depend on the pointer: two frames from engines that differ only in the pointer state
  give the same slots (so the same state for every slot particle), resolve the same
  promises and leave the same busy and interaction flags. Ambient particles are not
  covered: their integrator does not read the interaction flag.
\<close>

theorem disabled_interaction_slots_ignore_pointer:
  assumes "\<not> interactionEnabled e"
  shows "slots (render (e\<lparr>mouse := m1\<rparr>) ts) = slots (render (e\<lparr>mouse := m2\<rparr>) ts) \<and>
         resolved (render (e\<lparr>mouse := m1\<rparr>) ts) = resolved (render (e\<lparr>mouse := m2\<rparr>) ts) \<and>
         busy (render (e\<lparr>mouse := m1\<rparr>) ts) = busy (render (e\<lparr>mouse := m2\<rparr>) ts) \<and>
         busyLog (render (e\<lparr>mouse := m1\<rparr>) ts) = busyLog (render (e\<lparr>mouse := m2\<rparr>) ts) \<and>
         interactionEnabled (render (e\<lparr>mouse := m1\<rparr>) ts) =
           interactionEnabled (render (e\<lparr>mouse := m2\<rparr>) ts)"
proof (cases "context2d e")
  case False
  then show ?thesis by (simp add: render_def)
next
  case True
  have c: "context2d (e\<lparr>mouse := m1\<rparr>)" "context2d (e\<lparr>mouse := m2\<rparr>)"
    using True by simp_all
  have rs: "renderSlots (e\<lparr>mouse := m1\<rparr>) ts d xs = renderSlots (e\<lparr>mouse := m2\<rparr>) ts d xs" for d xs
    by (rule renderSlots_cong, rule updateImageParticle_no_interaction) (simp_all add: assms)
  show ?thesis
    unfolding render_expand [OF c(1)] render_expand [OF c(2)]
    by (simp add: Let_def rs)
qed

theorem disabled_interaction_witness:
  "\<not> interactionEnabled locked_engine \<and>
   slots (render (locked_engine\<lparr>mouse := near_mouse\<rparr>) 16) =
   slots (render (locked_engine\<lparr>mouse := ex_mouse\<rparr>) 16)"
proof -
  have h: "\<not> interactionEnabled locked_engine"
    by (simp add: locked_engine_def)
  from disabled_interaction_slots_ignore_pointer [OF h, of near_mouse 16 ex_mouse] h
  show ?thesis by simp
qed

text \<open>
  The claim as written includes the ambient particles. With interaction disabled, an
  active pointer at the origin pushes the ambient particle at \<open>(3, 4)\<close>, which an inactive
  pointer leaves at rest.
\<close>

theorem ambient_reacts_when_disabled_counterexample:
  "\<not> interactionEnabled locked_engine \<and>
   map a_vx (ambientParticles (render (locked_engine\<lparr>mouse := near_mouse\<rparr>) 16)) =
     [9653 / 1200000] \<and>
   map a_vx (ambientParticles (render (locked_engine\<lparr>mouse := ex_mouse\<rparr>) 16)) = [0]"
  by (simp add: render_def Let_def updateImageParticles_def updateImageParticle_def
      updateAmbientParticles_def updateAmbientParticle_def setBusy_def setInteractionEnabled_def
      clamp_def locked_engine_def near_mouse_def assembled_slot_def ex_ambient_def ex_defs
      const_defs SPRING_def FRICTION_def AMBIENT_MOUSE_RADIUS_def AMBIENT_MOUSE_FORCE_def
      AMBIENT_FRICTION_def AMBIENT_RETURN_def INTERACTION_RADIUS_def)

subsection \<open>A transition on a slot without particles\<close>

text \<open>
  Claim C9. Let a slot have no particles and an open transition. Through any run of
  frames the slot stays exactly as it is, its transition still open: no frame runs its
  settle check. The run resolves the same promises and makes the same busy flag and busy
  callback calls as it would if the slot had no transition at all, so the frames never
  call this transition's continuation and never count it. In particular, when every open
  transition is on a slot without particles, a frame leaves the busy flag cleared.
\<close>

theorem empty_slot_transition_never_checked:
  assumes "getSlot (slots e) i = Some slot" and "s_particles slot = []"
    and "s_transition slot = Some t"
  shows "getSlot (slots (frames e tss)) i = Some slot \<and>
         resolved (frames e tss) =
           resolved (frames (e\<lparr>slots := putSlot (slots e) i (slot\<lparr>s_transition := None\<rparr>)\<rparr>) tss) \<and>
         busy (frames e tss) =
           busy (frames (e\<lparr>slots := putSlot (slots e) i (slot\<lparr>s_transition := None\<rparr>)\<rparr>) tss) \<and>
         busyLog (frames e tss) =
           busyLog (frames (e\<lparr>slots := putSlot (slots e) i (slot\<lparr>s_transition := None\<rparr>)\<rparr>) tss) \<and>
         (context2d e \<and>
          (\<forall>ks\<in>set (slots e). s_transition (snd ks) \<noteq> None \<longrightarrow> s_particles (snd ks) = []) \<longrightarrow>
            \<not> busy (render e ts))"
proof -
  let ?s0 = "slot\<lparr>s_transition := None\<rparr>"
  let ?e0 = "e\<lparr>slots := putSlot (slots e) i ?s0\<rparr>"
  have reg: "getSlot (slots e) i \<noteq> None"
    using assms(1) by simp
  have g0: "getSlot (slots ?e0) i = Some ?s0"
    using getSlot_putSlot [OF reg] by simp
  have p0: "s_particles ?s0 = []"
    using assms(2) by simp
  have restore: "?e0\<lparr>slots := putSlot (slots ?e0) i slot\<rparr> = e"
    by (simp add: putSlot_putSlot putSlot_same [OF assms(1)])
  from frames_skip_empty [OF g0 p0 assms(2), of tss]
  have run: "frames e tss = (frames ?e0 tss)\<lparr>slots := putSlot (slots (frames ?e0 tss)) i slot\<rparr>"
    unfolding restore by simp
  have keep: "getSlot (slots (frames e tss)) i = Some slot"
    using frames_skip_empty [OF assms(1) assms(2) assms(2), of tss] by simp
  have fields: "resolved (frames e tss) = resolved (frames ?e0 tss)"
    "busy (frames e tss) = busy (frames ?e0 tss)"
    "busyLog (frames e tss) = busyLog (frames ?e0 tss)"
    by (subst run, simp)+
  have "\<not> busy (render e ts)"
    if "context2d e"
      and "\<forall>ks\<in>set (slots e). s_transition (snd ks) \<noteq> None \<longrightarrow> s_particles (snd ks) = []"
    using that render_busy(1) [of e ts] by blast
  with keep fields show ?thesis by blast
qed

theorem empty_slot_transition_witness:
  "getSlot (slots waiting_engine) Hero = Some empty_slot \<and>
   s_particles empty_slot = [] \<and>
   s_transition empty_slot = Some (ex_transition Assembling) \<and>
   context2d waiting_engine \<and>
   getSlot (slots (frames waiting_engine [16, 1300, 2600])) Hero = Some empty_slot \<and>
   \<not> busy (render waiting_engine 1300)"
proof -
  have h: "getSlot (slots waiting_engine) Hero = Some empty_slot"
    "s_particles empty_slot = []"
    "s_transition empty_slot = Some (ex_transition Assembling)"
    by (simp_all add: waiting_engine_def ex_engine_def empty_slot_def ex_slot_def)
  have c: "context2d waiting_engine"
    and a: "\<forall>ks\<in>set (slots waiting_engine). s_transition (snd ks) \<noteq> None \<longrightarrow> s_particles (snd ks) = []"
    by (simp_all add: waiting_engine_def ex_engine_def empty_slot_def ex_slot_def)
  from empty_slot_transition_never_checked [OF h, of "[16, 1300, 2600]" 1300] c a h
  show ?thesis by blast
qed

subsection \<open>Sampled particles rest on their targets\<close>

text \<open>
  Claim C10, as amended. Whenever a sampling pass runs (loaded image, rect of positive
  area), whatever the slot's status, every particle it produces has its position equal to
  its target and zero velocity, and the snap loop maps the sampled list to itself. So
  \<^verbatim>\<open>updateSlotRect\<close> with a rect of positive area stores exactly the sampled slot, for an
  assembled slot as for any other. With a rect of no area no sampling pass runs: the
  slot keeps its particles, and for an assembled slot the snap loop is what moves them
  onto their targets.
\<close>

theorem sampled_particles_rest_on_target:
  "(0 < rect_w (cfg_rect (s_config slot)) \<and> 0 < rect_h (cfg_rect (s_config slot)) \<and>
    complete (s_image slot) \<longrightarrow>
      (\<forall>p\<in>set (s_particles (prepareParticles slot)).
         p_x p = p_tx p \<and> p_y p = p_ty p \<and> p_vx p = 0 \<and> p_vy p = 0) \<and>
      snapToTarget (s_particles (prepareParticles slot)) = s_particles (prepareParticles slot)) \<and>
   (getSlot (slots e) i = Some slot0 \<and> complete (s_image slot0) \<and>
    0 < rect_w rect \<and> 0 < rect_h rect \<longrightarrow>
      getSlot (slots (updateSlotRect e i rect)) i =
        Some (prepareParticles (slot0\<lparr>s_config := (s_config slot0)\<lparr>cfg_rect := rect\<rparr>\<rparr>))) \<and>
   (getSlot (slots e) i = Some slot0 \<and> complete (s_image slot0) \<and>
    (rect_w rect \<le> 0 \<or> rect_h rect \<le> 0) \<longrightarrow>
      getSlot (slots (updateSlotRect e i rect)) i =
        Some (slot0\<lparr>s_config := (s_config slot0)\<lparr>cfg_rect := rect\<rparr>,
                    s_particles := (if s_status slot0 = Assembled
                                    then snapToTarget (s_particles slot0)
                                    else s_particles slot0)\<rparr>))"
proof (intro conjI impI)
  assume h: "0 < rect_w (cfg_rect (s_config slot)) \<and> 0 < rect_h (cfg_rect (s_config slot)) \<and>
    complete (s_image slot)"
  then have sp: "s_particles (prepareParticles slot) =
      spec_samples MIN_ALPHA_THRESHOLD
        (img_data (s_image slot)
           (nat (max 1 (mathRound (rect_w (cfg_rect (s_config slot))))))
           (nat (max 1 (mathRound (rect_h (cfg_rect (s_config slot)))))))
        (cfg_rect (s_config slot))
        (nat (max 1 (mathRound (rect_w (cfg_rect (s_config slot))))))
        (nat (max 1 (mathRound (rect_h (cfg_rect (s_config slot))))))"
    by (simp add: prepareParticles_sampled)
  show on: "\<forall>p\<in>set (s_particles (prepareParticles slot)).
         p_x p = p_tx p \<and> p_y p = p_ty p \<and> p_vx p = 0 \<and> p_vy p = 0"
    unfolding sp by (rule spec_samples_on_target)
  show "snapToTarget (s_particles (prepareParticles slot)) = s_particles (prepareParticles slot)"
    by (rule snapToTarget_id [OF on])
next
  assume h: "getSlot (slots e) i = Some slot0 \<and> complete (s_image slot0) \<and>
    0 < rect_w rect \<and> 0 < rect_h rect"
  let ?s1 = "slot0\<lparr>s_config := (s_config slot0)\<lparr>cfg_rect := rect\<rparr>\<rparr>"
  have reg: "getSlot (slots e) i \<noteq> None" using h by simp
  have sp: "s_particles (prepareParticles ?s1) =
      spec_samples MIN_ALPHA_THRESHOLD
        (img_data (s_image ?s1)
           (nat (max 1 (mathRound (rect_w (cfg_rect (s_config ?s1))))))
           (nat (max 1 (mathRound (rect_h (cfg_rect (s_config ?s1)))))))
        (cfg_rect (s_config ?s1))
        (nat (max 1 (mathRound (rect_w (cfg_rect (s_config ?s1))))))
        (nat (max 1 (mathRound (rect_h (cfg_rect (s_config ?s1))))))"
    using h by (intro prepareParticles_sampled) simp_all
  have "snapToTarget (s_particles (prepareParticles ?s1)) = s_particles (prepareParticles ?s1)"
    unfolding sp by (rule snapToTarget_id [OF spec_samples_on_target])
  then have "(prepareParticles ?s1)\<lparr>s_particles := snapToTarget (s_particles (prepareParticles ?s1))\<rparr> =
      prepareParticles ?s1"
    by simp
  then show "getSlot (slots (updateSlotRect e i rect)) i = Some (prepareParticles ?s1)"
    using h getSlot_putSlot [OF reg]
    by (simp add: updateSlotRect_def Let_def)
next
  assume h: "getSlot (slots e) i = Some slot0 \<and> complete (s_image slot0) \<and>
    (rect_w rect \<le> 0 \<or> rect_h rect \<le> 0)"
  let ?s1 = "slot0\<lparr>s_config := (s_config slot0)\<lparr>cfg_rect := rect\<rparr>\<rparr>"
  have reg: "getSlot (slots e) i \<noteq> None" using h by simp
  have pp: "prepareParticles ?s1 = ?s1"
    using h by (auto simp: prepareParticles_def)
  show "getSlot (slots (updateSlotRect e i rect)) i =
        Some (slot0\<lparr>s_config := (s_config slot0)\<lparr>cfg_rect := rect\<rparr>,
                    s_particles := (if s_status slot0 = Assembled
                                    then snapToTarget (s_particles slot0)
                                    else s_particles slot0)\<rparr>)"
    using h getSlot_putSlot [OF reg]
    by (simp add: updateSlotRect_def Let_def pp)
qed

theorem sampled_particles_witness:
  "0 < rect_w (cfg_rect (s_config displaced_slot)) \<and>
   0 < rect_h (cfg_rect (s_config displaced_slot)) \<and>
   complete (s_image displaced_slot) \<and>
   getSlot (slots (ex_engine displaced_slot)) Hero = Some displaced_slot \<and>
   0 < rect_w (cfg_rect ex_config) \<and> 0 < rect_h (cfg_rect ex_config) \<and>
   snapToTarget (s_particles (prepareParticles displaced_slot)) =
     s_particles (prepareParticles displaced_slot) \<and>
   getSlot (slots (updateSlotRect (ex_engine displaced_slot) Hero (cfg_rect ex_config))) Hero =
     Some (prepareParticles
             (displaced_slot\<lparr>s_config := (s_config displaced_slot)\<lparr>cfg_rect := cfg_rect ex_config\<rparr>\<rparr>))"
proof -
  have h: "0 < rect_w (cfg_rect (s_config displaced_slot)) \<and>
      0 < rect_h (cfg_rect (s_config displaced_slot)) \<and> complete (s_image displaced_slot)"
    by (simp add: displaced_slot_def ex_slot_def ex_config_def ex_image_def complete_def)
  have g: "getSlot (slots (ex_engine displaced_slot)) Hero = Some displaced_slot \<and>
      complete (s_image displaced_slot) \<and>
      0 < rect_w (cfg_rect ex_config) \<and> 0 < rect_h (cfg_rect ex_config)"
    by (simp add: ex_engine_def displaced_slot_def ex_slot_def ex_config_def ex_image_def
        complete_def)
  from sampled_particles_rest_on_target
    [of displaced_slot "ex_engine displaced_slot" Hero displaced_slot "cfg_rect ex_config"] h g
  show ?thesis by blast
qed

text \<open>
  The snap loop of \<^verbatim>\<open>updateSlotRect\<close> does change something when the new rect has no area:
  the assembled slot keeps its particle, which a pointer had pushed to \<open>x = 9\<close> with
  velocity 1, and the loop puts it back on its target \<open>x = 5\<close> at rest.
\<close>

theorem snap_loop_moves_kept_particles_counterexample:
  "s_status displaced_slot = Assembled \<and>
   map p_x (s_particles (prepareParticles
      (displaced_slot\<lparr>s_config := (s_config displaced_slot)\<lparr>cfg_rect := zero_rect\<rparr>\<rparr>))) = [9] \<and>
   map p_vx (s_particles (prepareParticles
      (displaced_slot\<lparr>s_config := (s_config displaced_slot)\<lparr>cfg_rect := zero_rect\<rparr>\<rparr>))) = [1] \<and>
   map_option (map p_x \<circ> s_particles)
     (getSlot (slots (updateSlotRect (ex_engine displaced_slot) Hero zero_rect)) Hero) = Some [5] \<and>
   map_option (map p_vx \<circ> s_particles)
     (getSlot (slots (updateSlotRect (ex_engine displaced_slot) Hero zero_rect)) Hero) = Some [0]"
  by (simp add: updateSlotRect_def prepareParticles_def Let_def snapParticle_def complete_def
      displaced_slot_def zero_rect_def ex_defs)

end
